theory Spec2Isabelle
  imports Complex_Main "HOL-Library.Char_ord" "HOL-Library.List_Lexorder"
    "HOL-Library.Product_Lexorder"
begin

section \<open>Values shared by the pipeline scripts\<close>

text \<open>
  The scripts are pandas programs over CSV tables. A table cell read from a CSV file is
  either text or missing (pandas NaN); numeric cells are modelled as \<open>real option\<close>,
  with \<open>None\<close> for NaN. Floating-point arithmetic is idealised as arithmetic on
  \<open>real\<close>. Strings are lists of characters in the ASCII range: \<open>lower\<close>,
  \<open>upper\<close> and \<open>strip\<close> act on ASCII letters and ASCII white space only.
\<close>

datatype py_error = KeyError string | IndexError | ValueError string

datatype pyval = Missing | Text string

subsection \<open>Python string operations\<close>

definition upper_letters :: string where
  "upper_letters = ''ABCDEFGHIJKLMNOPQRSTUVWXYZ''"

definition lower_letters :: string where
  "lower_letters = ''abcdefghijklmnopqrstuvwxyz''"

definition lower_char :: "char \<Rightarrow> char" where
  "lower_char c = (case map_of (zip upper_letters lower_letters) c of
                     Some d \<Rightarrow> d | None \<Rightarrow> c)"

definition upper_char :: "char \<Rightarrow> char" where
  "upper_char c = (case map_of (zip lower_letters upper_letters) c of
                     Some d \<Rightarrow> d | None \<Rightarrow> c)"

definition lower :: "string \<Rightarrow> string" where
  "lower s = map lower_char s"

definition upper :: "string \<Rightarrow> string" where
  "upper s = map upper_char s"

definition is_space :: "char \<Rightarrow> bool" where
  "is_space c = ((of_char c :: nat) \<in> {9, 10, 11, 12, 13, 28, 29, 30, 31, 32})"

definition strip :: "string \<Rightarrow> string" where
  "strip s = rev (dropWhile is_space (rev (dropWhile is_space s)))"

definition is_letter :: "char \<Rightarrow> bool" where
  "is_letter c = (c \<in> set upper_letters \<or> c \<in> set lower_letters)"

text \<open>\<open>s.replace(".", "")\<close>\<close>

definition remove_dots :: "string \<Rightarrow> string" where
  "remove_dots s = filter (\<lambda>c. c \<noteq> CHR ''.'') s"

text \<open>\<open>s.split(sep)\<close> for a one-character separator: never the empty list.\<close>

fun split_on :: "char \<Rightarrow> string \<Rightarrow> string list" where
  "split_on sep [] = [[]]"
| "split_on sep (c # s) =
     (if c = sep then [] # split_on sep s
      else (case split_on sep s of
              [] \<Rightarrow> [[c]]
            | w # ws \<Rightarrow> (c # w) # ws))"

text \<open>\<open>xs[0]\<close>, which raises IndexError on the empty list.\<close>

fun index0 :: "'a list \<Rightarrow> py_error + 'a" where
  "index0 [] = Inl IndexError"
| "index0 (x # xs) = Inr x"

text \<open>\<open>x in s\<close> on strings: \<open>x\<close> occurs in \<open>s\<close> as a contiguous substring.\<close>

fun starts_with :: "string \<Rightarrow> string \<Rightarrow> bool" where
  "starts_with [] s = True"
| "starts_with (a # x) [] = False"
| "starts_with (a # x) (c # s) = (a = c \<and> starts_with x s)"

fun str_in :: "string \<Rightarrow> string \<Rightarrow> bool" where
  "str_in x [] = (x = [])"
| "str_in x (c # s) = (starts_with x (c # s) \<or> str_in x s)"

text \<open>\<open>any(x in s for x in kws)\<close>\<close>

definition any_in :: "string list \<Rightarrow> string \<Rightarrow> bool" where
  "any_in kws s = list_ex (\<lambda>x. str_in x s) kws"

section \<open>Entity normalizer (clean\_lineups.py)\<close>

text \<open>\<open>pd.isna(v) or not str(v).strip()\<close>: the value is missing or blank.\<close>

fun blank :: "pyval \<Rightarrow> bool" where
  "blank Missing = True"
| "blank (Text s) = (strip s = [])"

definition mapping_text :: "(string \<times> string) list" where
  "mapping_text =
    [(''fr'', ''1st''), (''frosh'', ''1st''), (''freshman'', ''1st''),
     (''so'', ''2nd''), (''sophomore'', ''2nd''),
     (''jr'', ''3rd''), (''junior'', ''3rd''),
     (''sr'', ''4th''), (''senior'', ''4th''),
     (''1'', ''1st''), (''1st'', ''1st''), (''first'', ''1st''),
     (''2'', ''2nd''), (''2nd'', ''2nd''), (''second'', ''2nd''),
     (''3'', ''3rd''), (''3rd'', ''3rd''), (''third'', ''3rd''),
     (''4'', ''4th''), (''4th'', ''4th''), (''fourth'', ''4th''),
     (''5'', ''5th''), (''5th'', ''5th''), (''fifth'', ''5th'')]"

definition mapping_num :: "(string \<times> int) list" where
  "mapping_num =
    [(''1st'', 1), (''2nd'', 2), (''3rd'', 3), (''4th'', 4), (''5th'', 5), (''UNK'', 0)]"

text \<open>\<open>d[k]\<close>, which raises KeyError on a missing key, and \<open>d.get(k, default)\<close>.\<close>

definition dict_index :: "(string \<times> 'v) list \<Rightarrow> string \<Rightarrow> py_error + 'v" where
  "dict_index d k = (case map_of d k of None \<Rightarrow> Inl (KeyError k) | Some v \<Rightarrow> Inr v)"

definition dict_get :: "(string \<times> 'v) list \<Rightarrow> string \<Rightarrow> 'v \<Rightarrow> 'v" where
  "dict_get d k dflt = (case map_of d k of None \<Rightarrow> dflt | Some v \<Rightarrow> v)"

text \<open>The cleaned key \<open>str(y).strip().lower().replace(".", "")\<close>.\<close>

definition year_key :: "string \<Rightarrow> string" where
  "year_key s = remove_dots (lower (strip s))"

fun normalize_year :: "pyval \<Rightarrow> py_error + (int \<times> string)" where
  "normalize_year y =
     (if blank y then Inr (0, ''UNK'')
      else (case y of
              Text s \<Rightarrow>
                (let year_std = dict_get mapping_text (year_key s) ''UNK'' in
                 (case dict_index mapping_num year_std of
                    Inl e \<Rightarrow> Inl e
                  | Inr n \<Rightarrow> Inr (n, year_std)))
            | Missing \<Rightarrow> Inr (0, ''UNK'')))"

definition gk_keywords :: "string list" where
  "gk_keywords = [''GK'', ''GOAL'']"

definition def_keywords :: "string list" where
  "def_keywords = [''CB'', ''D'', ''LB'', ''RB'', ''DEF'', ''FB'', ''WB'', ''BACK'', ''CD'']"

definition mid_keywords :: "string list" where
  "mid_keywords = [''CM'', ''M'', ''CDM'', ''LMF'', ''RMF'', ''MF'', ''MID'', ''CAM'', ''AMF'']"

definition for_keywords :: "string list" where
  "for_keywords = [''ST'', ''F'', ''CF'', ''FW'', ''F'', ''W'']"

text \<open>\<open>re.sub(r"[^a-zA-Z/]", "", str(p).upper())\<close>\<close>

definition position_letters :: "string \<Rightarrow> string" where
  "position_letters s = filter (\<lambda>c. is_letter c \<or> c = CHR ''/'') (upper s)"

definition classify_position :: "string \<Rightarrow> string" where
  "classify_position main_pos =
     (if any_in gk_keywords main_pos then ''GK''
      else if any_in def_keywords main_pos then ''DEF''
      else if any_in mid_keywords main_pos then ''MID''
      else if any_in for_keywords main_pos then ''FOR''
      else ''UNK'')"

fun normalize_position :: "pyval \<Rightarrow> py_error + (string \<times> string)" where
  "normalize_position p =
     (if blank p then Inr (''UNK'', ''UNK'')
      else (case p of
              Text s \<Rightarrow>
                (case index0 (split_on (CHR ''/'') (position_letters s)) of
                   Inl e \<Rightarrow> Inl e
                 | Inr main_pos \<Rightarrow> Inr (main_pos, classify_position main_pos))
            | Missing \<Rightarrow> Inr (''UNK'', ''UNK'')))"

section \<open>Tables of team-match rows (features\_enriched.csv)\<close>

text \<open>
  Every table downstream of the aggregator has one row per (match, team). The numeric
  columns the scripts read are indexed by \<open>column\<close>; a missing cell (NaN) is \<open>None\<close>.
  Columns that are only carried along (home\_team, away\_team, is\_home, for, mid) are
  left out.
\<close>

datatype column =
  Goals | Shots | Sog | Assists | Player_count | Avg_player_year
  | G_mean | SH_mean | SOG_mean | A_mean

record match_key =
  match_id :: string

record team_key = match_key +
  team :: string

record feat_row = team_key +
  season :: string
  date :: string
  result :: pyval
  num :: "column \<Rightarrow> real option"

subsection \<open>Series operations\<close>

text \<open>\<open>x.mean()\<close>: the mean of the cells that are not NaN, NaN when there is none.\<close>

definition present :: "'a option list \<Rightarrow> 'a list" where
  "present xs = [y. Some y \<leftarrow> xs]"

definition nanmean :: "real option list \<Rightarrow> real option" where
  "nanmean xs =
     (if present xs = [] then None
      else Some (sum_list (present xs) / real (length (present xs))))"

text \<open>\<open>x.fillna(m)\<close>; filling with NaN changes nothing.\<close>

definition fillna :: "real option list \<Rightarrow> real option \<Rightarrow> real option list" where
  "fillna xs m = map (\<lambda>v. case v of None \<Rightarrow> m | Some y \<Rightarrow> Some y) xs"

text \<open>\<open>x.shift(1)\<close>\<close>

definition shift1 :: "real option list \<Rightarrow> real option list" where
  "shift1 xs = (if xs = [] then [] else None # butlast xs)"

text \<open>
  \<open>x.rolling(window=w, min_periods=1).mean()\<close>: at position \<open>p\<close> the mean of the
  cells that are not NaN among positions \<open>p - w + 1 .. p\<close>.
\<close>

definition rolling_mean :: "nat \<Rightarrow> real option list \<Rightarrow> real option list" where
  "rolling_mean w xs =
     map (\<lambda>p. nanmean (drop (Suc p - w) (take (Suc p) xs))) [0..<length xs]"

subsection \<open>groupby(key)[col].transform(f)\<close>

text \<open>
  The rows of the group of row \<open>i\<close>, in table order, and the position of row \<open>i\<close>
  within its group. \<open>transform\<close> applies \<open>f\<close> to the column of each group and puts
  the results back at the rows' places.
\<close>

definition group_rows :: "('r \<Rightarrow> 'k) \<Rightarrow> 'r list \<Rightarrow> nat \<Rightarrow> 'r list" where
  "group_rows key df i = filter (\<lambda>r. key r = key (df ! i)) df"

definition group_pos :: "('r \<Rightarrow> 'k) \<Rightarrow> 'r list \<Rightarrow> nat \<Rightarrow> nat" where
  "group_pos key df i = length (filter (\<lambda>r. key r = key (df ! i)) (take i df))"

definition group_transform ::
  "('r \<Rightarrow> 'k) \<Rightarrow> ('r \<Rightarrow> 'a) \<Rightarrow> ('a list \<Rightarrow> 'b list) \<Rightarrow> 'r list \<Rightarrow> 'b list" where
  "group_transform key col f df =
     map (\<lambda>i. f (map col (group_rows key df i)) ! group_pos key df i) [0..<length df]"

section \<open>Form engine (build\_prematch\_features\_full.py)\<close>

text \<open>
  build\_prematch\_features.py performs steps 1, 2 and 4 of this script for the five
  rolling columns, in the same way.
\<close>

text \<open>\<open>df.sort_values(["season", "team", "date"])\<close>, a stable sort; dates are strings.\<close>

definition sort_values :: "feat_row list \<Rightarrow> feat_row list" where
  "sort_values df = sort_key (\<lambda>r. (season r, team r, date r)) df"

definition stats_cols :: "column list" where
  "stats_cols = [Shots, Sog, Assists, Player_count, Avg_player_year]"

definition season_team :: "feat_row \<Rightarrow> string \<times> string" where
  "season_team r = (season r, team r)"

text \<open>
  \<open>df.groupby(["season", "team"])[col].transform(lambda x:
  x.shift(1).rolling(window=w, min_periods=1).mean())\<close>
\<close>

definition rolling_form :: "nat \<Rightarrow> (feat_row \<Rightarrow> real option) \<Rightarrow> feat_row list \<Rightarrow> real option list" where
  "rolling_form w col df =
     group_transform season_team col (\<lambda>x. rolling_mean w (shift1 x)) df"

text \<open>The numeric encoding of the \<open>result\<close> column.\<close>

fun to_numeric_result :: "pyval \<Rightarrow> real" where
  "to_numeric_result r =
     (if r = Text ''win'' then 1
      else if r = Text ''loss'' then 0
      else 1 / 2)"

definition numeric_result_col :: "feat_row \<Rightarrow> real option" where
  "numeric_result_col r = Some (to_numeric_result (result r))"

text \<open>\<open>df.groupby("team")[col].transform(lambda x: x.fillna(x.mean()))\<close>\<close>

definition team_fill :: "feat_row list \<Rightarrow> real option list \<Rightarrow> real option list" where
  "team_fill df c =
     group_transform (\<lambda>rv. team (fst rv)) snd (\<lambda>x. fillna x (nanmean x)) (zip df c)"

text \<open>\<open>df.fillna(df.mean(numeric_only=True))\<close>, column by column.\<close>

definition global_fill :: "real option list \<Rightarrow> real option list" where
  "global_fill c = fillna c (nanmean c)"

text \<open>A rolling column after both fills.\<close>

definition form_feature :: "nat \<Rightarrow> (feat_row \<Rightarrow> real option) \<Rightarrow> feat_row list \<Rightarrow> real option list" where
  "form_feature w col s = global_fill (team_fill s (rolling_form w col s))"

record form_row = feat_row +
  numeric_result :: real
  rolling3 :: "column \<Rightarrow> real option"
  win_rate_rolling5 :: "real option"

text \<open>
  Steps 1 to 4 of the script. A column \<open>c_rolling3\<close> exists for the columns of
  \<open>stats_cols\<close> only; for the others \<open>rolling3 r c\<close> is \<open>None\<close>.
\<close>

definition form_engine :: "feat_row list \<Rightarrow> form_row list" where
  "form_engine df =
     (let s = sort_values df in
      map (\<lambda>i. feat_row.extend
                 ((s ! i)\<lparr>num := (\<lambda>c. global_fill (map (\<lambda>r. num r c) s) ! i)\<rparr>)
                 (form_row.fields
                    (to_numeric_result (result (s ! i)))
                    (\<lambda>c. if c \<in> set stats_cols
                         then form_feature 3 (\<lambda>r. num r c) s ! i else None)
                    (form_feature 5 numeric_result_col s ! i)))
          [0..<length s])"

text \<open>
  The rows that stand before row \<open>i\<close> in the table and belong to its (season, team)
  group, and the values of column \<open>col\<close> in the last \<open>w\<close> of them (all of them
  when there are fewer): the up-to-\<open>w\<close> immediately preceding matches of the team.
\<close>

definition prior_rows :: "feat_row list \<Rightarrow> nat \<Rightarrow> feat_row list" where
  "prior_rows s i = filter (\<lambda>r. season_team r = season_team (s ! i)) (take i s)"

definition prior_window :: "nat \<Rightarrow> (feat_row \<Rightarrow> real option) \<Rightarrow> feat_row list \<Rightarrow> nat \<Rightarrow> real option list" where
  "prior_window w col s i =
     (let ys = map col (prior_rows s i) in drop (length ys - w) ys)"

section \<open>Opponent differencer\<close>

text \<open>
  \<open>df.merge(df, on="match_id", suffixes=("", "_opp"))\<close> followed by the filter
  \<open>merged["team"] != merged["team_opp"]\<close>: a row of the result is a pair (own row,
  opponent row).
\<close>

definition self_merge :: "('a team_key_scheme) list \<Rightarrow> ('a team_key_scheme \<times> 'a team_key_scheme) list" where
  "self_merge df = concat (map (\<lambda>l. map (\<lambda>r. (l, r)) (filter (\<lambda>r. match_id r = match_id l) df)) df)"

definition opponent_pairs :: "('a team_key_scheme) list \<Rightarrow> ('a team_key_scheme \<times> 'a team_key_scheme) list" where
  "opponent_pairs df = filter (\<lambda>(l, r). team l \<noteq> team r) (self_merge df)"

text \<open>Subtraction of two cells: NaN when either is NaN.\<close>

fun nan_minus :: "real option \<Rightarrow> real option \<Rightarrow> real option" where
  "nan_minus (Some x) (Some y) = Some (x - y)"
| "nan_minus _ _ = None"

text \<open>\<open>a == b\<close> on two float cells: false when either is NaN.\<close>

definition py_eq :: "real option \<Rightarrow> real option \<Rightarrow> bool" where
  "py_eq a b = (case (a, b) of (Some x, Some y) \<Rightarrow> x = y | _ \<Rightarrow> False)"

text \<open>\<open>-a\<close> on a float cell.\<close>

definition py_neg :: "real option \<Rightarrow> real option" where
  "py_neg a = map_option uminus a"

subsection \<open>add\_opponent\_features.py\<close>

definition diff_cols :: "column list" where
  "diff_cols = [Goals, Shots, Sog, Assists, G_mean, SH_mean, SOG_mean, A_mean]"

record opp_row = feat_row +
  diff :: "column \<Rightarrow> real option"

text \<open>
  \<open>goal_diff\<close>, \<open>shot_diff\<close>, \<open>sog_diff\<close>, \<open>assist_diff\<close> and the four
  \<open>*_mean_diff\<close> columns are \<open>diff r c\<close> for \<open>c\<close> in \<open>diff_cols\<close>.
\<close>

definition add_opponent_features :: "feat_row list \<Rightarrow> opp_row list" where
  "add_opponent_features df =
     map (\<lambda>(l, r). feat_row.extend l
            (opp_row.fields
               (\<lambda>c. if c \<in> set diff_cols then nan_minus (num l c) (num r c) else None)))
         (opponent_pairs df)"

subsection \<open>Step 5 of build\_prematch\_features\_full.py\<close>

record prematch_row = form_row +
  form_diff :: "column \<Rightarrow> real option"
  win_rate_diff :: "real option"

definition opponent_form_diff :: "form_row list \<Rightarrow> prematch_row list" where
  "opponent_form_diff df =
     map (\<lambda>(l, r). form_row.extend l
            (prematch_row.fields
               (\<lambda>c. if c \<in> set stats_cols
                    then nan_minus (rolling3 l c) (rolling3 r c) else None)
               (nan_minus (win_rate_rolling5 l) (win_rate_rolling5 r))))
         (opponent_pairs df)"

definition build_prematch_full :: "feat_row list \<Rightarrow> prematch_row list" where
  "build_prematch_full df = opponent_form_diff (form_engine df)"

section \<open>Match aggregator (build\_features.py)\<close>

text \<open>
  The boxscore table is modelled with its columns as read from the CSV file, since the
  script tests which columns are present: a column is numeric (float cells, NaN as
  \<open>None\<close>) or of dtype object (text cells, NaN as \<open>None\<close>). Rows are assembled from
  the columns by position. The lineups and matches tables are taken as typed rows;
  \<open>None\<close> for the lineups table stands for a table without the \<open>position_group\<close> or
  the \<open>year_num\<close> column; the matches table has its text columns match\_id,
  home\_team, away\_team and its numeric columns home\_goals, away\_goals. The identifier
  columns match\_id, team and player are text columns; where one is numeric the merges
  with the text columns of the other tables raise ValueError.
\<close>

datatype series = Numeric "real option list" | Object "string option list"

record frame =
  nrows :: nat
  columns :: "(string \<times> series) list"

text \<open>Step 1: \<open>box.columns = [c.strip().lower() for c in box.columns]\<close>\<close>

definition normalize_columns :: "frame \<Rightarrow> frame" where
  "normalize_columns f = f\<lparr>columns := map (\<lambda>(n, c). (lower (strip n), c)) (columns f)\<rparr>"

text \<open>Step 2: \<open>box.rename(columns=rename_map)\<close>\<close>

definition rename_map :: "(string \<times> string) list" where
  "rename_map = [(''a'', ''assists''), (''sh'', ''shots''), (''sog'', ''sog''), (''g'', ''goals'')]"

definition rename_columns :: "frame \<Rightarrow> frame" where
  "rename_columns f = f\<lparr>columns := map (\<lambda>(n, c). (dict_get rename_map n n, c)) (columns f)\<rparr>"

text \<open>
  Step 3: \<open>df[col].astype(str).str.strip().str.lower()\<close> on the columns of dtype
  object; \<open>astype(str)\<close> turns NaN into the text \<open>nan\<close>.
\<close>

definition clean_str :: "string \<Rightarrow> string" where
  "clean_str s = lower (strip s)"

fun clean_text :: "series \<Rightarrow> series" where
  "clean_text (Object xs) =
     Object (map (\<lambda>v. Some (clean_str (case v of None \<Rightarrow> ''nan'' | Some s \<Rightarrow> s))) xs)"
| "clean_text (Numeric xs) = Numeric xs"

definition clean_frame :: "frame \<Rightarrow> frame" where
  "clean_frame f = f\<lparr>columns := map (\<lambda>(n, c). (n, clean_text c)) (columns f)\<rparr>"

definition prepare_box :: "frame \<Rightarrow> frame" where
  "prepare_box box = clean_frame (rename_columns (normalize_columns box))"

text \<open>
  Step 4, for one column: \<open>pd.to_numeric(box[col], errors="coerce").fillna(0)\<close> if the
  column is present, the constant 0 otherwise. The parser of \<open>pd.to_numeric\<close> for a
  text cell is the parameter \<open>parse\<close> (\<open>None\<close> where the text is not a number).
\<close>

fun to_numeric :: "(string \<Rightarrow> real option) \<Rightarrow> series \<Rightarrow> real option list" where
  "to_numeric parse (Numeric xs) = xs"
| "to_numeric parse (Object xs) = map (\<lambda>v. case v of None \<Rightarrow> None | Some s \<Rightarrow> parse s) xs"

definition fillna0 :: "real option list \<Rightarrow> real list" where
  "fillna0 xs = map (\<lambda>v. case v of None \<Rightarrow> 0 | Some x \<Rightarrow> x) xs"

definition stat_values :: "(string \<Rightarrow> real option) \<Rightarrow> frame \<Rightarrow> string \<Rightarrow> real list" where
  "stat_values parse box col =
     (case map_of (columns box) col of
        Some c \<Rightarrow> fillna0 (to_numeric parse c)
      | None \<Rightarrow> replicate (nrows box) 0)"

text \<open>\<open>box[col]\<close> for an identifier column: KeyError when the column is absent.\<close>

definition text_column :: "frame \<Rightarrow> string \<Rightarrow> py_error + string list" where
  "text_column f col =
     (case map_of (columns f) col of
        None \<Rightarrow> Inl (KeyError col)
      | Some (Numeric xs) \<Rightarrow> Inl (ValueError col)
      | Some (Object xs) \<Rightarrow> Inr (map (\<lambda>v. case v of None \<Rightarrow> ''nan'' | Some s \<Rightarrow> s) xs))"

record stat_sums = team_key +
  goals :: real
  shots :: real
  sog :: real
  assists :: real

record box_row = stat_sums +
  player :: string

text \<open>The rows of the boxscore table after step 4.\<close>

definition box_rows :: "(string \<Rightarrow> real option) \<Rightarrow> frame \<Rightarrow> py_error + box_row list" where
  "box_rows parse box =
     (case text_column box ''match_id'' of Inl e \<Rightarrow> Inl e | Inr ms \<Rightarrow>
      case text_column box ''team'' of Inl e \<Rightarrow> Inl e | Inr ts \<Rightarrow>
      case text_column box ''player'' of Inl e \<Rightarrow> Inl e | Inr ps \<Rightarrow>
        Inr (map (\<lambda>(m, t, p, sh, so, g, a).
                    \<lparr>match_id = m, team = t, goals = g, shots = sh, sog = so, assists = a,
                     player = p\<rparr>)
               (zip ms (zip ts (zip ps
                 (zip (stat_values parse box ''shots'') (zip (stat_values parse box ''sog'')
                   (zip (stat_values parse box ''goals'') (stat_values parse box ''assists'')))))))))"

text \<open>
  Step 5: \<open>box.groupby(["match_id", "team"], as_index=False).agg(...)\<close>. The groups
  come in the sorted order of their keys.
\<close>

definition row_key :: "'a team_key_scheme \<Rightarrow> string \<times> string" where
  "row_key r = (match_id r, team r)"

definition group_keys :: "('a team_key_scheme) list \<Rightarrow> (string \<times> string) list" where
  "group_keys rows = sort (remdups (map row_key rows))"

record stats_row = stat_sums +
  player_count :: nat

definition team_stats :: "box_row list \<Rightarrow> stats_row list" where
  "team_stats box =
     map (\<lambda>k. let g = filter (\<lambda>b. row_key b = k) box in
              \<lparr>match_id = fst k, team = snd k,
               goals = sum_list (map goals g), shots = sum_list (map shots g),
               sog = sum_list (map sog g), assists = sum_list (map assists g),
               player_count = length g\<rparr>)
         (group_keys box)"

text \<open>
  Step 6. A lineups row, with its text cells cleaned by step 3, and the left merge
  \<open>box.merge(lineups[[...]], on=["player", "team"], how="left")\<close>: a boxscore row
  without a lineup entry keeps one row, with NaN in \<open>position_group\<close> and \<open>year_num\<close>.
\<close>

record lineup_row =
  lu_player :: string
  lu_team :: string
  position_group :: string
  year_num :: "real option"

definition clean_lineups :: "lineup_row list \<Rightarrow> lineup_row list" where
  "clean_lineups ls =
     map (\<lambda>l. l\<lparr>lu_player := clean_str (lu_player l), lu_team := clean_str (lu_team l),
                position_group := clean_str (position_group l)\<rparr>) ls"

definition box_lineup :: "box_row list \<Rightarrow> lineup_row list \<Rightarrow> (box_row \<times> string option \<times> real option) list" where
  "box_lineup box ls =
     concat (map (\<lambda>b.
        (case filter (\<lambda>l. lu_player l = player b \<and> lu_team l = team b) ls of
           [] \<Rightarrow> [(b, None, None)]
         | l # ls' \<Rightarrow> map (\<lambda>l. (b, Some (position_group l), year_num l)) (l # ls'))) box)"

text \<open>
  \<open>x.value_counts(normalize=True).to_dict()\<close>: the share of each value among the cells
  that are not NaN. (pandas orders the dictionary by falling count; the order plays no
  role below.)
\<close>

definition value_counts :: "string option list \<Rightarrow> (string \<times> real) list" where
  "value_counts xs =
     (let ys = present xs in
      map (\<lambda>v. (v, real (count_list ys v) / real (length ys))) (remdups ys))"

text \<open>The position groups of the merged rows of one (match, team) group.\<close>

definition group_positions ::
  "box_row list \<Rightarrow> lineup_row list \<Rightarrow> string \<times> string \<Rightarrow> string option list" where
  "group_positions box ls k =
     map (\<lambda>(b, pg, yn). pg) (filter (\<lambda>(b, pg, yn). row_key b = k) (box_lineup box ls))"

definition roster_summary ::
  "box_row list \<Rightarrow> lineup_row list \<Rightarrow> ((string \<times> string) \<times> real option \<times> (string \<times> real) list) list" where
  "roster_summary box ls =
     map (\<lambda>k. (k,
               nanmean (map (\<lambda>(b, pg, yn). yn)
                          (filter (\<lambda>(b, pg, yn). row_key b = k) (box_lineup box ls))),
               value_counts (group_positions box ls k)))
         (sort (remdups (map (\<lambda>(b, pg, yn). row_key b) (box_lineup box ls))))"

text \<open>
  \<open>roster_summary["position_group"].apply(pd.Series)\<close> followed by \<open>fillna(0)\<close>: one
  column per position group that occurs in some dictionary, 0 where a row's dictionary
  lacks the group.
\<close>

definition position_columns :: "(string \<times> real) list list \<Rightarrow> string list" where
  "position_columns dicts = remdups (concat (map (map fst) dicts))"

definition expand_row :: "string list \<Rightarrow> (string \<times> real) list \<Rightarrow> (string \<times> real) list" where
  "expand_row cols d = map (\<lambda>c. (c, case map_of d c of None \<Rightarrow> 0 | Some v \<Rightarrow> v)) cols"

definition roster_final ::
  "box_row list \<Rightarrow> lineup_row list \<Rightarrow> ((string \<times> string) \<times> real option \<times> (string \<times> real) list) list" where
  "roster_final box ls =
     (let summary = roster_summary box ls;
          cols = position_columns (map (\<lambda>(k, y, d). d) summary)
      in map (\<lambda>(k, y, d). (k, y, expand_row cols d)) summary)"

text \<open>
  Step 7: \<open>team_stats.merge(roster_final, on=["match_id", "team"], how="left")\<close>; a
  row without a roster row would get NaN in every roster column.
\<close>

record features_row = stats_row +
  avg_player_year :: "real option"
  props :: "(string \<times> real option) list"

definition features :: "box_row list \<Rightarrow> lineup_row list \<Rightarrow> features_row list" where
  "features box ls =
     (let roster = roster_final box ls;
          cols = position_columns (map (\<lambda>(k, y, d). d) (roster_summary box ls))
      in concat (map (\<lambda>s.
           (case filter (\<lambda>(k, y, d). k = row_key s) roster of
              [] \<Rightarrow> [stats_row.extend s (features_row.fields None (map (\<lambda>c. (c, None)) cols))]
            | r # rs \<Rightarrow>
                map (\<lambda>(k, y, d). stats_row.extend s
                       (features_row.fields y (map (\<lambda>(c, v). (c, Some v)) d)))
                    (r # rs)))
         (team_stats box)))"

record matches_row = match_key +
  home_team :: string
  away_team :: string
  home_goals :: "real option"
  away_goals :: "real option"

definition clean_matches :: "matches_row list \<Rightarrow> matches_row list" where
  "clean_matches ms =
     map (\<lambda>x. x\<lparr>match_id := clean_str (match_id x), home_team := clean_str (home_team x),
                away_team := clean_str (away_team x)\<rparr>) ms"

record team_match_row = features_row +
  fixture :: matches_row
  is_home :: int
  match_result :: pyval

text \<open>
  Step 8, the function \<open>result\<close> of the script. A comparison with NaN is false, so a
  missing score gives a draw.
\<close>

definition py_less :: "real option \<Rightarrow> real option \<Rightarrow> bool" where
  "py_less a b = (case (a, b) of (Some x, Some y) \<Rightarrow> x < y | _ \<Rightarrow> False)"

definition result_of :: "int \<Rightarrow> matches_row \<Rightarrow> pyval" where
  "result_of home x =
     (if home = 1
      then (if py_less (away_goals x) (home_goals x) then Text ''win''
            else if py_less (home_goals x) (away_goals x) then Text ''loss''
            else Text ''draw'')
      else (if py_less (home_goals x) (away_goals x) then Text ''win''
            else if py_less (away_goals x) (home_goals x) then Text ''loss''
            else Text ''draw''))"

text \<open>
  The inner merges \<open>features.merge(matches, left_on=["match_id", "team"],
  right_on=["match_id", "home_team"], how="inner")\<close> and the same on \<open>away_team\<close>.
\<close>

definition merge_side ::
  "int \<Rightarrow> (matches_row \<Rightarrow> string) \<Rightarrow> features_row list \<Rightarrow> matches_row list \<Rightarrow> team_match_row list" where
  "merge_side home side fs ms =
     concat (map (\<lambda>f.
        map (\<lambda>x. features_row.extend f (team_match_row.fields x home (result_of home x)))
            (filter (\<lambda>x. match_id x = match_id f \<and> side x = team f) ms)) fs)"

text \<open>Steps 5 to 8 on the rows of the three tables.\<close>

definition aggregate :: "box_row list \<Rightarrow> lineup_row list \<Rightarrow> matches_row list \<Rightarrow> team_match_row list" where
  "aggregate box ls ms =
     (let fs = features box (clean_lineups ls);
          ms' = clean_matches ms
      in merge_side 1 home_team fs ms' @ merge_side 0 away_team fs ms')"

text \<open>
  The whole script. Without the two lineups columns \<open>roster_final\<close> is the empty
  \<open>pd.DataFrame()\<close>, and merging on its absent column \<open>match_id\<close> raises KeyError.
\<close>

definition build_features ::
  "(string \<Rightarrow> real option) \<Rightarrow> frame \<Rightarrow> lineup_row list option \<Rightarrow> matches_row list
   \<Rightarrow> py_error + team_match_row list" where
  "build_features parse box lineups ms =
     (case box_rows parse (prepare_box box) of
        Inl e \<Rightarrow> Inl e
      | Inr rows \<Rightarrow>
          (case lineups of
             None \<Rightarrow> Inl (KeyError ''match_id'')
           | Some ls \<Rightarrow> Inr (aggregate rows ls ms)))"

text \<open>
  The roster columns that the left merge of step 7 finds for the group with key \<open>k\<close>,
  the position groups of the group's merged rows that are not NaN, and the test that an
  identifier column is present as a text column.
\<close>

definition roster_year :: "box_row list \<Rightarrow> lineup_row list \<Rightarrow> string \<times> string \<Rightarrow> real option" where
  "roster_year box ls k =
     nanmean (map (\<lambda>(b, pg, yn). yn)
               (filter (\<lambda>(b, pg, yn). row_key b = k) (box_lineup box ls)))"

definition roster_props ::
  "box_row list \<Rightarrow> lineup_row list \<Rightarrow> string \<times> string \<Rightarrow> (string \<times> real) list" where
  "roster_props box ls k =
     expand_row (position_columns (map (\<lambda>(k, y, d). d) (roster_summary box ls)))
       (value_counts (group_positions box ls k))"

definition matched_positions :: "box_row list \<Rightarrow> lineup_row list \<Rightarrow> string \<times> string \<Rightarrow> string list" where
  "matched_positions box ls k = present (group_positions box ls k)"

definition has_text_column :: "frame \<Rightarrow> string \<Rightarrow> bool" where
  "has_text_column f col =
     (case map_of (columns f) col of Some (Object xs) \<Rightarrow> True | _ \<Rightarrow> False)"

section \<open>Example tables\<close>

definition example_row ::
  "string \<Rightarrow> string \<Rightarrow> string \<Rightarrow> string \<Rightarrow> pyval \<Rightarrow> (column \<times> real) list \<Rightarrow> feat_row" where
  "example_row m t s d r vals =
     \<lparr>match_id = m, team = t, season = s, date = d, result = r, num = map_of vals\<rparr>"

text \<open>
  Four matches of one team in one season; the shots of the second, third and fourth
  match are parameters.
\<close>

definition ubc_table :: "real \<Rightarrow> real \<Rightarrow> real \<Rightarrow> feat_row list" where
  "ubc_table x2 x3 x4 =
     [example_row ''m1'' ''ubc'' ''2023'' ''2023-09-01'' (Text ''win'') [(Shots, 10)],
      example_row ''m2'' ''ubc'' ''2023'' ''2023-09-08'' (Text ''draw'') [(Shots, x2)],
      example_row ''m3'' ''ubc'' ''2023'' ''2023-09-15'' (Text ''loss'') [(Shots, x3)],
      example_row ''m4'' ''ubc'' ''2023'' ''2023-09-22'' (Text ''win'') [(Shots, x4)]]"

text \<open>
  Three matches of one team; in the first none of its players was found in the lineups,
  so its \<open>avg_player_year\<close> is NaN. The second match's \<open>avg_player_year\<close> is the
  parameter.
\<close>

definition unmatched_opener_table :: "real \<Rightarrow> feat_row list" where
  "unmatched_opener_table y =
     [example_row ''m1'' ''ubc'' ''2023'' ''2023-09-01'' (Text ''win'')
        [(Shots, 10), (Player_count, 14)],
      example_row ''m2'' ''ubc'' ''2023'' ''2023-09-08'' (Text ''draw'')
        [(Shots, 14), (Player_count, 15), (Avg_player_year, y)],
      example_row ''m3'' ''ubc'' ''2023'' ''2023-09-15'' (Text ''loss'')
        [(Shots, 8), (Player_count, 14), (Avg_player_year, 3)]]"

text \<open>Four matches of one team whose first three results are not win or loss.\<close>

definition odd_results_table :: "feat_row list" where
  "odd_results_table =
     [example_row ''m1'' ''ubc'' ''2023'' ''2023-09-01'' Missing [(Shots, 10)],
      example_row ''m2'' ''ubc'' ''2023'' ''2023-09-08'' (Text ''draw'') [(Shots, 14)],
      example_row ''m3'' ''ubc'' ''2023'' ''2023-09-15'' (Text ''Win'') [(Shots, 8)],
      example_row ''m4'' ''ubc'' ''2023'' ''2023-09-22'' (Text ''win'') [(Shots, 9)]]"

text \<open>The scenario of the specification: one match, 12 shots against 9.\<close>

definition two_team_table :: "feat_row list" where
  "two_team_table =
     [example_row ''m'' ''teama'' ''2023'' ''2023-09-01'' (Text ''win'') [(Shots, 12)],
      example_row ''m'' ''teamb'' ''2023'' ''2023-09-01'' (Text ''loss'') [(Shots, 9)]]"

text \<open>
  One match in which the second team found no player summary, so its \<open>G_mean\<close> is
  NaN.
\<close>

definition missing_mean_table :: "feat_row list" where
  "missing_mean_table =
     [example_row ''m'' ''teama'' ''2023'' ''2023-09-01'' (Text ''win'')
        [(Goals, 2), (Shots, 12), (G_mean, 1 / 7)],
      example_row ''m'' ''teamb'' ''2023'' ''2023-09-01'' (Text ''loss'')
        [(Goals, 0), (Shots, 9)]]"

text \<open>
  Two matches of one team whose date could not be scraped: both carry the date text
  \<open>Unknown\<close>. The shots of the first match are the parameter.
\<close>

definition unknown_date_table :: "real \<Rightarrow> feat_row list" where
  "unknown_date_table x1 =
     [example_row ''m1'' ''ubc'' ''2023'' ''Unknown'' (Text ''win'') [(Shots, x1)],
      example_row ''m2'' ''ubc'' ''2023'' ''Unknown'' (Text ''draw'') [(Shots, 20)]]"

text \<open>
  A match whose fixture was scraped twice: the aggregator emits its home row and its
  away row twice each.
\<close>

definition duplicated_match_table :: "feat_row list" where
  "duplicated_match_table =
     [example_row ''m'' ''teama'' ''2023'' ''2023-09-01'' (Text ''win'') [(Shots, 12)],
      example_row ''m'' ''teama'' ''2023'' ''2023-09-01'' (Text ''win'') [(Shots, 12)],
      example_row ''m'' ''teamb'' ''2023'' ''2023-09-01'' (Text ''loss'') [(Shots, 9)],
      example_row ''m'' ''teamb'' ''2023'' ''2023-09-01'' (Text ''loss'') [(Shots, 9)]]"

text \<open>
  One match with one player row per team; only the away player has a lineup entry. The
  boxscore frame has no \<open>SH\<close> column.
\<close>

definition example_box_rows :: "box_row list" where
  "example_box_rows =
     [\<lparr>match_id = ''m1'', team = ''ubc'', goals = 1, shots = 3, sog = 2, assists = 0,
       player = ''ann''\<rparr>,
      \<lparr>match_id = ''m1'', team = ''calgary'', goals = 0, shots = 2, sog = 1, assists = 0,
       player = ''cy''\<rparr>]"

definition example_lineups :: "lineup_row list" where
  "example_lineups =
     [\<lparr>lu_player = ''Cy'', lu_team = ''Calgary'', position_group = ''MID'', year_num = Some 2\<rparr>]"

definition example_matches :: "matches_row list" where
  "example_matches =
     [\<lparr>match_id = ''m1'', home_team = ''UBC'', away_team = ''Calgary'',
       home_goals = Some 1, away_goals = Some 0\<rparr>]"

definition example_box :: frame where
  "example_box = \<lparr>nrows = 2, columns =
     [(''match_id'', Object [Some ''m1'', Some ''m1'']),
      (''team'', Object [Some ''UBC'', Some ''Calgary'']),
      (''player'', Object [Some ''Ann'', Some ''Cy'']),
      (''G'', Numeric [Some 1, Some 0]),
      (''A'', Numeric [Some 0, Some 0]),
      (''SOG'', Numeric [Some 2, Some 1])]\<rparr>"

section \<open>Properties\<close>

lemma split_on_nonempty: "split_on sep s \<noteq> []"
  by (induction s) (auto split: list.splits)

lemma index0_split_on: "\<exists>w. index0 (split_on sep s) = Inr w"
  using split_on_nonempty [of sep s]
  by (cases "split_on sep s") auto

lemma classify_position_codomain:
  "classify_position m \<in> {''GK'', ''DEF'', ''MID'', ''FOR'', ''UNK''}"
  by (simp add: classify_position_def)

lemma dict_get_mapping_text:
  "dict_get mapping_text k ''UNK'' \<in> {''1st'', ''2nd'', ''3rd'', ''4th'', ''5th'', ''UNK''}"
  unfolding dict_get_def mapping_text_def
  by (simp split: option.splits)

lemma year_of_label:
  "l \<in> {''1st'', ''2nd'', ''3rd'', ''4th'', ''5th'', ''UNK''} \<Longrightarrow>
   \<exists>n. dict_index mapping_num l = Inr n \<and>
       (n, l) \<in> {(0, ''UNK''), (1, ''1st''), (2, ''2nd''), (3, ''3rd''), (4, ''4th''), (5, ''5th'')}"
  unfolding dict_index_def mapping_num_def by auto

lemma normalize_year_codomain:
  "\<exists>n l. normalize_year y = Inr (n, l) \<and>
     (n, l) \<in> {(0, ''UNK''), (1, ''1st''), (2, ''2nd''), (3, ''3rd''), (4, ''4th''), (5, ''5th'')}"
proof (cases y)
  case Missing
  then show ?thesis by simp
next
  case (Text s)
  show ?thesis
  proof (cases "blank y")
    case True
    then show ?thesis by simp
  next
    case False
    obtain n where n: "dict_index mapping_num (dict_get mapping_text (year_key s) ''UNK'') = Inr n"
      "(n, dict_get mapping_text (year_key s) ''UNK'')
         \<in> {(0, ''UNK''), (1, ''1st''), (2, ''2nd''), (3, ''3rd''), (4, ''4th''), (5, ''5th'')}"
      using year_of_label [OF dict_get_mapping_text [of "year_key s"]] by blast
    have "normalize_year y = Inr (n, dict_get mapping_text (year_key s) ''UNK'')"
      using False Text n(1) by (simp add: Let_def)
    with n(2) show ?thesis by blast
  qed
qed

lemma normalize_year_unmatched:
  assumes "y = Missing \<or> (\<exists>s. y = Text s \<and> (strip s = [] \<or> map_of mapping_text (year_key s) = None))"
  shows "normalize_year y = Inr (0, ''UNK'')"
proof (cases y)
  case Missing
  then show ?thesis by simp
next
  case (Text s)
  show ?thesis
  proof (cases "strip s = []")
    case True
    with Text show ?thesis by simp
  next
    case False
    with assms Text have "map_of mapping_text (year_key s) = None" by simp
    then have "dict_get mapping_text (year_key s) ''UNK'' = ''UNK''"
      by (simp add: dict_get_def)
    moreover have "dict_index mapping_num ''UNK'' = Inr 0"
      by (simp add: dict_index_def mapping_num_def)
    ultimately show ?thesis using Text False by (simp add: Let_def)
  qed
qed

lemma normalize_position_codomain:
  "\<exists>z g. normalize_position p = Inr (z, g) \<and> g \<in> {''GK'', ''DEF'', ''MID'', ''FOR'', ''UNK''}
     \<and> (\<not> any_in (gk_keywords @ def_keywords @ mid_keywords @ for_keywords) z \<longrightarrow> g = ''UNK'')"
proof (cases "blank p")
  case True
  then show ?thesis by simp
next
  case False
  then obtain s where s: "p = Text s" by (cases p) auto
  obtain m where m: "index0 (split_on (CHR ''/'') (position_letters s)) = Inr m"
    using index0_split_on by blast
  have "normalize_position p = Inr (m, classify_position m)"
    using False s m by simp
  moreover have "\<not> any_in (gk_keywords @ def_keywords @ mid_keywords @ for_keywords) m
      \<longrightarrow> classify_position m = ''UNK''"
    by (simp add: classify_position_def any_in_def)
  ultimately show ?thesis using classify_position_codomain [of m] by blast
qed

text \<open>
  Claim C8. On every input (text, blank or missing) \<open>normalize_year\<close> and
  \<open>normalize_position\<close> return a value and raise nothing. \<open>normalize_year\<close> returns
  one of the six pairs (0, UNK), (1, 1st), ..., (5, 5th), and (0, UNK) when the input is
  missing, blank or not a key of the synonym table. The group returned by
  \<open>normalize_position\<close> is one of GK, DEF, MID, FOR, UNK, and it is UNK when no keyword
  occurs in the zone.
\<close>

theorem normalizers_total:
  "(\<exists>n l. normalize_year y = Inr (n, l) \<and>
      (n, l) \<in> {(0, ''UNK''), (1, ''1st''), (2, ''2nd''), (3, ''3rd''), (4, ''4th''), (5, ''5th'')})
   \<and> (y = Missing \<or> (\<exists>s. y = Text s \<and> (strip s = [] \<or> map_of mapping_text (year_key s) = None))
        \<longrightarrow> normalize_year y = Inr (0, ''UNK''))
   \<and> (\<exists>z g. normalize_position p = Inr (z, g) \<and> g \<in> {''GK'', ''DEF'', ''MID'', ''FOR'', ''UNK''}
        \<and> (\<not> any_in (gk_keywords @ def_keywords @ mid_keywords @ for_keywords) z \<longrightarrow> g = ''UNK''))"
  using normalize_year_codomain [of y] normalize_year_unmatched [of y]
    normalize_position_codomain [of p]
  by blast

theorem normalizers_total_witness:
  "normalize_year (Text ''redshirt'') = Inr (0, ''UNK'')
   \<and> (\<exists>z. normalize_position (Text ''12 X'') = Inr (z, ''UNK''))"
proof -
  have y: "map_of mapping_text (year_key ''redshirt'') = None"
    by code_simp
  have p: "normalize_position (Text ''12 X'') = Inr (''X'', classify_position ''X'')"
    by code_simp
  have k: "\<not> any_in (gk_keywords @ def_keywords @ mid_keywords @ for_keywords) ''X''"
    by code_simp
  from normalizers_total [of "Text ''redshirt''" "Text ''12 X''"] y p k
  show ?thesis by auto
qed

text \<open>
  Claim C6. The position text "CDM/CB" has the primary token "CDM", which is the zone.
  The keyword sets are checked in the order GK, DEF, MID, FOR, and the DEF keyword "D"
  occurs in "CDM", so the group returned is DEF; the MID keyword "CDM" is never reached.
\<close>

theorem normalize_position_cdm_cb:
  "normalize_position (Text ''CDM/CB'') = Inr (''CDM'', ''DEF'')"
  by code_simp

subsection \<open>Groups\<close>

lemma filter_split_at:
  assumes "i < length df" and "P (df ! i)"
  shows "filter P df = filter P (take i df) @ df ! i # filter P (drop (Suc i) df)"
proof -
  have "df = take i df @ df ! i # drop (Suc i) df"
    using assms(1) by (simp add: id_take_nth_drop)
  then have "filter P df = filter P (take i df @ df ! i # drop (Suc i) df)"
    by simp
  with assms(2) show ?thesis by simp
qed

lemma group_rows_split:
  assumes "i < length df"
  shows "group_rows key df i =
         filter (\<lambda>r. key r = key (df ! i)) (take i df) @ df ! i #
         filter (\<lambda>r. key r = key (df ! i)) (drop (Suc i) df)"
  unfolding group_rows_def using assms by (rule filter_split_at) simp

lemma group_pos_less:
  assumes "i < length df"
  shows "group_pos key df i < length (group_rows key df i)"
  using group_rows_split [OF assms, of key] by (simp add: group_pos_def)

lemma group_rows_nth:
  assumes "i < length df"
  shows "group_rows key df i ! group_pos key df i = df ! i"
  using group_rows_split [OF assms, of key] by (simp add: group_pos_def nth_append)

lemma group_rows_take:
  assumes "i < length df"
  shows "take (group_pos key df i) (group_rows key df i) =
         filter (\<lambda>r. key r = key (df ! i)) (take i df)"
  using group_rows_split [OF assms, of key] by (simp add: group_pos_def)

lemma group_transform_nth:
  assumes "i < length df"
  shows "group_transform key col f df ! i =
         f (map col (group_rows key df i)) ! group_pos key df i"
  using assms by (simp add: group_transform_def)

lemma length_group_transform [simp]: "length (group_transform key col f df) = length df"
  by (simp add: group_transform_def)

subsection \<open>Series\<close>

lemma present_Cons_None [simp]: "present (None # xs) = present xs"
  by (simp add: present_def)

lemma nanmean_Cons_None [simp]: "nanmean (None # xs) = nanmean xs"
  by (simp add: nanmean_def)

lemma present_empty_iff: "present xs = [] \<longleftrightarrow> (\<forall>v. Some v \<notin> set xs)"
  by (induction xs) (auto simp: present_def split: option.splits)

lemma nanmean_Some_iff: "(\<exists>m. nanmean xs = Some m) \<longleftrightarrow> (\<exists>v. Some v \<in> set xs)"
  by (auto simp: nanmean_def present_empty_iff)

lemma present_all_Some: "None \<notin> set xs \<Longrightarrow> present xs = map the xs"
proof (induction xs)
  case Nil
  then show ?case by (simp add: present_def)
next
  case (Cons a xs)
  then obtain y where "a = Some y" by (cases a) auto
  with Cons show ?case by (simp add: present_def)
qed

lemma length_shift1 [simp]: "length (shift1 xs) = length xs"
  by (simp add: shift1_def)

lemma length_rolling_mean [simp]: "length (rolling_mean w xs) = length xs"
  by (simp add: rolling_mean_def)

lemma length_fillna [simp]: "length (fillna xs m) = length xs"
  by (simp add: fillna_def)

lemma take_Suc_shift1:
  assumes "p < length xs"
  shows "take (Suc p) (shift1 xs) = None # take p xs"
proof -
  from assms have "xs \<noteq> []" by auto
  moreover from assms have "take p (butlast xs) = take p xs"
    by (simp add: take_butlast)
  ultimately show ?thesis by (simp add: shift1_def)
qed

lemma rolling_shift_nth:
  assumes "p < length xs"
  shows "rolling_mean w (shift1 xs) ! p = nanmean (drop (p - w) (take p xs))"
proof -
  have "rolling_mean w (shift1 xs) ! p = nanmean (drop (Suc p - w) (None # take p xs))"
    using assms by (simp add: rolling_mean_def take_Suc_shift1)
  also have "\<dots> = nanmean (drop (p - w) (take p xs))"
  proof (cases "w \<le> p")
    case True
    then have "Suc p - w = Suc (p - w)" by simp
    then show ?thesis by simp
  next
    case False
    then have "Suc p - w = 0" "p - w = 0" by simp_all
    then show ?thesis by simp
  qed
  finally show ?thesis .
qed

lemma fillna_nth_Some:
  assumes "p < length xs" and "xs ! p = Some v"
  shows "fillna xs m ! p = Some v"
  using assms by (simp add: fillna_def)

subsection \<open>Rolling columns\<close>

lemma length_rolling_form [simp]: "length (rolling_form w col s) = length s"
  by (simp add: rolling_form_def)

lemma group_window:
  assumes "i < length s"
  shows "drop (group_pos season_team s i - w)
           (take (group_pos season_team s i) (map col (group_rows season_team s i))) =
         prior_window w col s i"
proof -
  have "take (group_pos season_team s i) (map col (group_rows season_team s i)) =
        map col (prior_rows s i)"
    using group_rows_take [OF assms, of season_team] by (simp add: take_map prior_rows_def)
  moreover have "group_pos season_team s i = length (map col (prior_rows s i))"
    by (simp add: group_pos_def prior_rows_def)
  ultimately show ?thesis
    by (simp add: prior_window_def Let_def)
qed

lemma rolling_form_nth:
  assumes "i < length s"
  shows "rolling_form w col s ! i = nanmean (prior_window w col s i)"
proof -
  have "group_pos season_team s i < length (map col (group_rows season_team s i))"
    using group_pos_less [OF assms] by simp
  then show ?thesis
    using assms group_window [OF assms, of w col]
    by (simp add: rolling_form_def group_transform_nth rolling_shift_nth)
qed

lemma team_fill_nth_Some:
  assumes "i < length s" and "length c = length s" and "c ! i = Some v"
  shows "team_fill s c ! i = Some v"
proof -
  let ?zs = "zip s c"
  let ?key = "\<lambda>rv. team (fst rv)"
  have i: "i < length ?zs" using assms by simp
  have p: "group_pos ?key ?zs i < length (map snd (group_rows ?key ?zs i))"
    using group_pos_less [OF i] by simp
  have "map snd (group_rows ?key ?zs i) ! group_pos ?key ?zs i = snd (?zs ! i)"
    using group_pos_less [OF i, of ?key] group_rows_nth [OF i, of ?key] by simp
  also have "\<dots> = Some v" using assms by simp
  finally have "fillna (map snd (group_rows ?key ?zs i))
      (nanmean (map snd (group_rows ?key ?zs i))) ! group_pos ?key ?zs i = Some v"
    using p by (rule fillna_nth_Some [rotated])
  then show ?thesis
    using i by (simp add: team_fill_def group_transform_nth del: length_zip)
qed

lemma length_team_fill [simp]: "length (team_fill s c) = min (length s) (length c)"
  by (simp add: team_fill_def)

lemma form_feature_defined:
  assumes "i < length s" and "\<exists>v. Some v \<in> set (prior_window w col s i)"
  shows "form_feature w col s ! i = nanmean (prior_window w col s i)"
proof -
  obtain m where m: "nanmean (prior_window w col s i) = Some m"
    using assms(2) nanmean_Some_iff by blast
  have "rolling_form w col s ! i = Some m"
    using rolling_form_nth [OF assms(1)] m by simp
  then have "team_fill s (rolling_form w col s) ! i = Some m"
    using assms(1) by (intro team_fill_nth_Some) simp_all
  then have "global_fill (team_fill s (rolling_form w col s)) ! i = Some m"
    unfolding global_fill_def using assms(1) by (intro fillna_nth_Some) simp_all
  with m show ?thesis by (simp add: form_feature_def)
qed

subsection \<open>The window reads the earlier rows of the group only\<close>

lemma map_filter_agree:
  assumes "list_all2 (\<lambda>x y. key y = key x \<and> (key x = k \<longrightarrow> col y = col x)) xs ys"
  shows "map col (filter (\<lambda>r. key r = k) ys) = map col (filter (\<lambda>r. key r = k) xs)"
  using assms by (induction rule: list_all2_induct) auto

lemma prior_window_cong:
  assumes "i < length s" and "i < length s'"
    and "\<forall>j\<le>i. season_team (s' ! j) = season_team (s ! j)"
    and "\<forall>j<i. season_team (s ! j) = season_team (s ! i) \<longrightarrow> col (s' ! j) = col (s ! j)"
  shows "prior_window w col s' i = prior_window w col s i"
proof -
  have "list_all2 (\<lambda>x y. season_team y = season_team x \<and>
          (season_team x = season_team (s ! i) \<longrightarrow> col y = col x)) (take i s) (take i s')"
    using assms by (auto simp: list_all2_conv_all_nth)
  then have "map col (filter (\<lambda>r. season_team r = season_team (s ! i)) (take i s')) =
             map col (filter (\<lambda>r. season_team r = season_team (s ! i)) (take i s))"
    by (rule map_filter_agree)
  moreover have "season_team (s' ! i) = season_team (s ! i)" using assms(3) by simp
  ultimately show ?thesis
    by (simp add: prior_window_def prior_rows_def)
qed

subsection \<open>The engine's output, row by row\<close>

lemma length_sort_values [simp]: "length (sort_values df) = length df"
  by (simp add: sort_values_def)

lemma length_form_engine [simp]: "length (form_engine df) = length df"
  by (simp add: form_engine_def Let_def)

lemma rolling3_form_engine:
  assumes "i < length df"
  shows "rolling3 (form_engine df ! i) c =
         (if c \<in> set stats_cols then form_feature 3 (\<lambda>r. num r c) (sort_values df) ! i else None)"
  using assms by (simp add: form_engine_def Let_def feat_row.defs form_row.defs)

lemma win_rate_form_engine:
  assumes "i < length df"
  shows "win_rate_rolling5 (form_engine df ! i) =
         form_feature 5 numeric_result_col (sort_values df) ! i"
  using assms by (simp add: form_engine_def Let_def feat_row.defs form_row.defs)

lemma keys_form_engine:
  assumes "i < length df"
  shows "match_id (form_engine df ! i) = match_id (sort_values df ! i)"
    and "team (form_engine df ! i) = team (sort_values df ! i)"
    and "season (form_engine df ! i) = season (sort_values df ! i)"
    and "date (form_engine df ! i) = date (sort_values df ! i)"
  using assms by (simp_all add: form_engine_def Let_def feat_row.defs form_row.defs)

lemma sort_values_dates:
  assumes "j < i" and "i < length df"
    and "season_team (sort_values df ! j) = season_team (sort_values df ! i)"
  shows "date (sort_values df ! j) \<le> date (sort_values df ! i)"
proof -
  let ?k = "\<lambda>r. (season r, team r, date r)"
  have "sorted (map ?k (sort_values df))"
    by (simp add: sort_values_def)
  then have "map ?k (sort_values df) ! j \<le> map ?k (sort_values df) ! i"
    using assms(1,2) by (intro sorted_nth_mono) simp_all
  then have "?k (sort_values df ! j) \<le> ?k (sort_values df ! i)"
    using assms(1,2) by simp
  with assms(3) show ?thesis
    by (auto simp: season_team_def less_eq_prod_def)
qed

subsection \<open>Rolling means of the prior matches\<close>

text \<open>
  Claim C1, as the code has it. Take a row of the engine's output, at position \<open>i\<close> of
  the date-ordered table, and a designated statistic \<open>c\<close>. When at least one of the
  up-to-3 immediately preceding rows of its (season, team) group has a value of \<open>c\<close>
  that is not NaN, the row's \<open>c_rolling3\<close> is the mean of the values that are not NaN
  among those rows; it is the arithmetic mean of all of them when none is NaN. The
  current row is not among them: a table that differs in row \<open>i\<close> only (same season and
  team) gives the same \<open>c_rolling3\<close> at \<open>i\<close>.
\<close>

theorem rolling3_mean_of_prior:
  assumes "i < length df" and "c \<in> set stats_cols"
    and "\<exists>v. Some v \<in> set (prior_window 3 (\<lambda>r. num r c) (sort_values df) i)"
  shows "rolling3 (form_engine df ! i) c =
           nanmean (prior_window 3 (\<lambda>r. num r c) (sort_values df) i)
       \<and> (None \<notin> set (prior_window 3 (\<lambda>r. num r c) (sort_values df) i) \<longrightarrow>
            rolling3 (form_engine df ! i) c =
              Some (sum_list (map the (prior_window 3 (\<lambda>r. num r c) (sort_values df) i))
                    / real (length (prior_window 3 (\<lambda>r. num r c) (sort_values df) i))))
       \<and> (\<forall>df'. length df' = length df
              \<and> season_team (sort_values df' ! i) = season_team (sort_values df ! i)
              \<and> (\<forall>j<length df. j \<noteq> i \<longrightarrow>
                    season_team (sort_values df' ! j) = season_team (sort_values df ! j)
                    \<and> num (sort_values df' ! j) c = num (sort_values df ! j) c)
            \<longrightarrow> rolling3 (form_engine df' ! i) c = rolling3 (form_engine df ! i) c)"
proof (intro conjI allI impI)
  let ?W = "prior_window 3 (\<lambda>r. num r c) (sort_values df) i"
  have i: "i < length (sort_values df)" using assms(1) by simp
  show val: "rolling3 (form_engine df ! i) c = nanmean ?W"
    using assms(1,2) form_feature_defined [OF i assms(3)]
    by (simp add: rolling3_form_engine)
  {
    assume "None \<notin> set ?W"
    then have "present ?W = map the ?W" by (rule present_all_Some)
    moreover have "?W \<noteq> []" using assms(3) by auto
    ultimately show "rolling3 (form_engine df ! i) c =
        Some (sum_list (map the ?W) / real (length ?W))"
      using val by (simp add: nanmean_def)
  }
  {
    fix df'
    assume h: "length df' = length df
       \<and> season_team (sort_values df' ! i) = season_team (sort_values df ! i)
       \<and> (\<forall>j<length df. j \<noteq> i \<longrightarrow>
             season_team (sort_values df' ! j) = season_team (sort_values df ! j)
             \<and> num (sort_values df' ! j) c = num (sort_values df ! j) c)"
    then have i': "i < length (sort_values df')" using assms(1) by simp
    have keys: "\<forall>j\<le>i. season_team (sort_values df' ! j) = season_team (sort_values df ! j)"
      using h assms(1) by (metis le_neq_trans less_trans)
    have same: "\<forall>j<i. season_team (sort_values df ! j) = season_team (sort_values df ! i) \<longrightarrow>
        num (sort_values df' ! j) c = num (sort_values df ! j) c"
      using h assms(1) by auto
    have W: "prior_window 3 (\<lambda>r. num r c) (sort_values df') i = ?W"
      using i i' keys same by (rule prior_window_cong)
    have "rolling3 (form_engine df' ! i) c =
          nanmean (prior_window 3 (\<lambda>r. num r c) (sort_values df') i)"
      using h assms(1,2,3) form_feature_defined [OF i', of 3 "\<lambda>r. num r c"] W
      by (simp add: rolling3_form_engine)
    with W val show "rolling3 (form_engine df' ! i) c = rolling3 (form_engine df ! i) c"
      by simp
  }
qed


text \<open>
  The scenario of the specification: three prior matches with 10, 14 and 8 shots give
  the fourth match a rolling mean of 32/3, whatever its own shots.
\<close>

theorem rolling3_mean_of_prior_witness:
  "rolling3 (form_engine (ubc_table 14 8 99) ! 3) Shots = Some (32 / 3)
   \<and> rolling3 (form_engine (ubc_table 14 8 0) ! 3) Shots =
       rolling3 (form_engine (ubc_table 14 8 99) ! 3) Shots"
proof -
  let ?df = "ubc_table 14 8 99" and ?df' = "ubc_table 14 8 0"
  have i: "3 < length ?df" by (simp add: ubc_table_def)
  have c: "Shots \<in> set stats_cols" by (simp add: stats_cols_def)
  have W: "prior_window 3 (\<lambda>r. num r Shots) (sort_values ?df) 3 = [Some 10, Some 14, Some 8]"
    by code_simp
  have w: "\<exists>v. Some v \<in> set (prior_window 3 (\<lambda>r. num r Shots) (sort_values ?df) 3)"
    unfolding W by auto
  have l: "length ?df' = length ?df" by (simp add: ubc_table_def)
  have k: "season_team (sort_values ?df' ! 3) = season_team (sort_values ?df ! 3)"
    by code_simp
  have r0: "season_team (sort_values ?df' ! 0) = season_team (sort_values ?df ! 0)
        \<and> num (sort_values ?df' ! 0) Shots = num (sort_values ?df ! 0) Shots"
    by code_simp
  have r1: "season_team (sort_values ?df' ! 1) = season_team (sort_values ?df ! 1)
        \<and> num (sort_values ?df' ! 1) Shots = num (sort_values ?df ! 1) Shots"
    by code_simp
  have r2: "season_team (sort_values ?df' ! 2) = season_team (sort_values ?df ! 2)
        \<and> num (sort_values ?df' ! 2) Shots = num (sort_values ?df ! 2) Shots"
    by code_simp
  have r: "\<forall>j<length ?df. j \<noteq> 3 \<longrightarrow>
        season_team (sort_values ?df' ! j) = season_team (sort_values ?df ! j)
        \<and> num (sort_values ?df' ! j) Shots = num (sort_values ?df ! j) Shots"
  proof (intro allI impI)
    fix j :: nat
    assume "j < length ?df" and "j \<noteq> 3"
    then have "j = 0 \<or> j = 1 \<or> j = 2" by (auto simp: ubc_table_def)
    with r0 r1 r2
    show "season_team (sort_values ?df' ! j) = season_team (sort_values ?df ! j)
        \<and> num (sort_values ?df' ! j) Shots = num (sort_values ?df ! j) Shots"
      by blast
  qed
  note T = rolling3_mean_of_prior [OF i c w]
  from T have "rolling3 (form_engine ?df ! 3) Shots =
      nanmean (prior_window 3 (\<lambda>r. num r Shots) (sort_values ?df) 3)"
    by (rule conjunct1)
  also have "\<dots> = Some (32 / 3)"
    unfolding W by (simp add: nanmean_def present_def)
  finally have a: "rolling3 (form_engine ?df ! 3) Shots = Some (32 / 3)" .
  from T l k r have b: "rolling3 (form_engine ?df' ! 3) Shots = rolling3 (form_engine ?df ! 3) Shots"
    by blast
  from a b show ?thesis by (rule conjI)
qed

text \<open>
  With a NaN in the statistic the claim fails as stated: the second match has one prior
  match, whose \<open>avg_player_year\<close> is NaN; its rolling value is then imputed from the
  team's mean of the rolling column, which is the second match's own value.
\<close>

theorem rolling3_own_value_counterexample:
  "length (prior_rows (sort_values (unmatched_opener_table 2)) 1) = 1
   \<and> rolling3 (form_engine (unmatched_opener_table 2) ! 1) Avg_player_year = Some 2
   \<and> rolling3 (form_engine (unmatched_opener_table 4) ! 1) Avg_player_year = Some 4"
  by code_simp

lemma win_window_defined:
  assumes "prior_rows s i \<noteq> []" and "0 < w"
  shows "\<exists>v. Some v \<in> set (prior_window w numeric_result_col s i)"
proof -
  let ?ys = "map numeric_result_col (prior_rows s i)"
  have ne: "?ys \<noteq> []" using assms(1) by simp
  then have "length ?ys - w < length ?ys" using assms(2) by simp
  then have "drop (length ?ys - w) ?ys \<noteq> []" by simp
  then obtain x where x: "x \<in> set (drop (length ?ys - w) ?ys)"
    by (cases "drop (length ?ys - w) ?ys") auto
  then have "x \<in> set ?ys" by (rule in_set_dropD)
  then obtain v where "x = Some v" by (auto simp: numeric_result_col_def)
  with x show ?thesis by (auto simp: prior_window_def Let_def)
qed

subsection \<open>No leakage\<close>

text \<open>
  Claim C2, as the code has it. Let two input tables have the same number of rows, the
  same season and team in every row up to position \<open>i\<close> of the date-ordered tables, and
  the same results and designated statistics in the rows of row \<open>i\<close>'s group that stand
  before it; the rows at or after position \<open>i\<close> are perturbed at will. Then every
  \<open>c_rolling3\<close> of row \<open>i\<close> that is defined before imputation (some value of the window
  is not NaN) is the same in both runs, and so is \<open>win_rate_rolling5\<close> when the row has
  a prior match. Every row of the group with a strictly later date stands after row \<open>i\<close>,
  so it is among the rows that may be perturbed; a row of the group with the same date
  that the stable sort places before row \<open>i\<close> is not.
\<close>

theorem no_leakage_when_defined:
  assumes "i < length df" and "length df' = length df"
    and "\<forall>j\<le>i. season_team (sort_values df' ! j) = season_team (sort_values df ! j)"
    and "\<forall>j<i. season_team (sort_values df ! j) = season_team (sort_values df ! i) \<longrightarrow>
           result (sort_values df' ! j) = result (sort_values df ! j)
           \<and> (\<forall>c \<in> set stats_cols. num (sort_values df' ! j) c = num (sort_values df ! j) c)"
  shows "(\<forall>c \<in> set stats_cols.
            (\<exists>v. Some v \<in> set (prior_window 3 (\<lambda>r. num r c) (sort_values df) i)) \<longrightarrow>
            rolling3 (form_engine df' ! i) c = rolling3 (form_engine df ! i) c)
       \<and> (prior_rows (sort_values df) i \<noteq> [] \<longrightarrow>
            win_rate_rolling5 (form_engine df' ! i) = win_rate_rolling5 (form_engine df ! i))
       \<and> (\<forall>j<length df.
            season_team (sort_values df ! j) = season_team (sort_values df ! i)
            \<and> date (sort_values df ! i) < date (sort_values df ! j) \<longrightarrow> i < j)"
proof (intro conjI ballI allI impI)
  let ?s = "sort_values df" and ?s' = "sort_values df'"
  have i: "i < length ?s" and i': "i < length ?s'" using assms(1,2) by simp_all
  {
    fix c
    assume c: "c \<in> set stats_cols"
      and w: "\<exists>v. Some v \<in> set (prior_window 3 (\<lambda>r. num r c) ?s i)"
    have "\<forall>j<i. season_team (?s ! j) = season_team (?s ! i) \<longrightarrow>
        num (?s' ! j) c = num (?s ! j) c"
      using assms(4) c by blast
    with i i' assms(3)
    have W: "prior_window 3 (\<lambda>r. num r c) ?s' i = prior_window 3 (\<lambda>r. num r c) ?s i"
      by (rule prior_window_cong)
    have "form_feature 3 (\<lambda>r. num r c) ?s' ! i = form_feature 3 (\<lambda>r. num r c) ?s ! i"
      using form_feature_defined [OF i w] form_feature_defined [OF i', of 3 "\<lambda>r. num r c"] w W
      by simp
    then show "rolling3 (form_engine df' ! i) c = rolling3 (form_engine df ! i) c"
      using assms(1,2) by (simp add: rolling3_form_engine)
  }
  {
    assume p: "prior_rows ?s i \<noteq> []"
    have w: "\<exists>v. Some v \<in> set (prior_window 5 numeric_result_col ?s i)"
      using p by (rule win_window_defined) simp
    have "\<forall>j<i. season_team (?s ! j) = season_team (?s ! i) \<longrightarrow>
        numeric_result_col (?s' ! j) = numeric_result_col (?s ! j)"
      using assms(4) by (simp add: numeric_result_col_def)
    with i i' assms(3)
    have W: "prior_window 5 numeric_result_col ?s' i = prior_window 5 numeric_result_col ?s i"
      by (rule prior_window_cong)
    have "form_feature 5 numeric_result_col ?s' ! i = form_feature 5 numeric_result_col ?s ! i"
      using form_feature_defined [OF i w] form_feature_defined [OF i', of 5 numeric_result_col] w W
      by simp
    then show "win_rate_rolling5 (form_engine df' ! i) = win_rate_rolling5 (form_engine df ! i)"
      using assms(1,2) by (simp add: win_rate_form_engine)
  }
  {
    fix j
    assume j: "j < length df"
      and h: "season_team (?s ! j) = season_team (?s ! i) \<and> date (?s ! i) < date (?s ! j)"
    show "i < j"
    proof (rule ccontr)
      assume "\<not> i < j"
      with h have "j < i" by (cases "j = i") auto
      then have "date (?s ! j) \<le> date (?s ! i)"
        using assms(1) h by (intro sort_values_dates) simp_all
      then have "\<not> date (?s ! i) < date (?s ! j)" by (rule leD)
      with h show False by simp
    qed
  }
qed

text \<open>Perturbing the third and fourth match leaves the third match's features unchanged.\<close>

theorem no_leakage_when_defined_witness:
  "rolling3 (form_engine (ubc_table 14 30 40) ! 2) Shots =
     rolling3 (form_engine (ubc_table 14 8 20) ! 2) Shots
   \<and> win_rate_rolling5 (form_engine (ubc_table 14 30 40) ! 2) =
     win_rate_rolling5 (form_engine (ubc_table 14 8 20) ! 2)"
proof -
  let ?df = "ubc_table 14 8 20" and ?df' = "ubc_table 14 30 40"
  have i: "2 < length ?df" by (simp add: ubc_table_def)
  have l: "length ?df' = length ?df" by (simp add: ubc_table_def)
  have k0: "season_team (sort_values ?df' ! 0) = season_team (sort_values ?df ! 0)"
    and k1: "season_team (sort_values ?df' ! 1) = season_team (sort_values ?df ! 1)"
    and k2: "season_team (sort_values ?df' ! 2) = season_team (sort_values ?df ! 2)"
    by code_simp+
  have k: "\<forall>j\<le>2. season_team (sort_values ?df' ! j) = season_team (sort_values ?df ! j)"
  proof (intro allI impI)
    fix j :: nat
    assume "j \<le> 2"
    then have "j = 0 \<or> j = 1 \<or> j = 2" by auto
    with k0 k1 k2
    show "season_team (sort_values ?df' ! j) = season_team (sort_values ?df ! j)"
      by blast
  qed
  have r0: "result (sort_values ?df' ! 0) = result (sort_values ?df ! 0)
           \<and> (\<forall>c \<in> set stats_cols. num (sort_values ?df' ! 0) c = num (sort_values ?df ! 0) c)"
    and r1: "result (sort_values ?df' ! 1) = result (sort_values ?df ! 1)
           \<and> (\<forall>c \<in> set stats_cols. num (sort_values ?df' ! 1) c = num (sort_values ?df ! 1) c)"
    by code_simp+
  have r: "\<forall>j<2. season_team (sort_values ?df ! j) = season_team (sort_values ?df ! 2) \<longrightarrow>
           result (sort_values ?df' ! j) = result (sort_values ?df ! j)
           \<and> (\<forall>c \<in> set stats_cols. num (sort_values ?df' ! j) c = num (sort_values ?df ! j) c)"
  proof (intro allI impI)
    fix j :: nat
    assume "j < 2"
    then have "j = 0 \<or> j = 1" by auto
    with r0 r1
    show "result (sort_values ?df' ! j) = result (sort_values ?df ! j)
           \<and> (\<forall>c \<in> set stats_cols. num (sort_values ?df' ! j) c = num (sort_values ?df ! j) c)"
      by blast
  qed
  have c: "Shots \<in> set stats_cols" by (simp add: stats_cols_def)
  have W: "prior_window 3 (\<lambda>r. num r Shots) (sort_values ?df) 2 = [Some 10, Some 14]"
    by code_simp
  have w: "\<exists>v. Some v \<in> set (prior_window 3 (\<lambda>r. num r Shots) (sort_values ?df) 2)"
    unfolding W by auto
  have "length (prior_rows (sort_values ?df) 2) = 2"
    by code_simp
  then have p: "prior_rows (sort_values ?df) 2 \<noteq> []"
    by auto
  from no_leakage_when_defined [OF i l k r] c w p show ?thesis
    by blast
qed

text \<open>
  The claim fails in two ways. For an imputed row: the season opener's rolling value is
  the team's mean of the rolling column, which reads the shots of the later third match.
  For a date tie: of two matches with the same date the stable sort keeps the first in
  front, so it is in the window of the second, whose rolling value (not imputed) follows
  the first match's shots although that match's date is not earlier.
\<close>

theorem no_leakage_counterexample:
  "season_team (sort_values (ubc_table 14 8 20) ! 2) = season_team (sort_values (ubc_table 14 8 20) ! 0)
   \<and> date (sort_values (ubc_table 14 8 20) ! 0) \<le> date (sort_values (ubc_table 14 8 20) ! 2)
   \<and> rolling3 (form_engine (ubc_table 14 8 20) ! 0) Shots = Some (98 / 9)
   \<and> rolling3 (form_engine (ubc_table 14 38 20) ! 0) Shots = Some (128 / 9)
   \<and> season_team (sort_values (unknown_date_table 10) ! 0) =
       season_team (sort_values (unknown_date_table 10) ! 1)
   \<and> date (sort_values (unknown_date_table 10) ! 1) \<le> date (sort_values (unknown_date_table 10) ! 0)
   \<and> match_id (sort_values (unknown_date_table 10) ! 0) = ''m1''
   \<and> match_id (sort_values (unknown_date_table 30) ! 0) = ''m1''
   \<and> prior_window 3 (\<lambda>r. num r Shots) (sort_values (unknown_date_table 10)) 1 = [Some 10]
   \<and> rolling3 (form_engine (unknown_date_table 10) ! 1) Shots = Some 10
   \<and> rolling3 (form_engine (unknown_date_table 30) ! 1) Shots = Some 30"
  by code_simp

subsection \<open>The encoding of results\<close>

lemma nanmean_const:
  assumes "xs \<noteq> []" and "\<forall>x \<in> set xs. x = Some c"
  shows "nanmean xs = Some c"
proof -
  have xs: "xs = replicate (length xs) (Some c)"
    using assms(2) by (simp add: replicate_length_same)
  have "present (replicate n (Some c)) = replicate n c" for n
    by (induction n) (simp_all add: present_def)
  then have p: "present xs = replicate (length xs) c"
    using xs by metis
  have "length xs \<noteq> 0" using assms(1) by simp
  then show ?thesis
    by (simp add: nanmean_def p sum_list_replicate)
qed

lemma nanmean_all_present:
  assumes "ps \<noteq> []"
  shows "nanmean (map (\<lambda>p. Some (f p)) ps) = Some (sum_list (map f ps) / real (length ps))"
proof -
  have "present (map (\<lambda>p. Some (f p)) ps) = map f ps"
    by (induction ps) (simp_all add: present_def)
  with assms show ?thesis by (simp add: nanmean_def)
qed

lemma win_rate_is_mean:
  assumes "i < length df" and "prior_rows (sort_values df) i \<noteq> []"
  shows "win_rate_rolling5 (form_engine df ! i) =
         Some (sum_list (map (\<lambda>p. to_numeric_result (result p))
                  (drop (length (prior_rows (sort_values df) i) - 5)
                     (prior_rows (sort_values df) i)))
               / real (length (drop (length (prior_rows (sort_values df) i) - 5)
                     (prior_rows (sort_values df) i))))"
proof -
  let ?s = "sort_values df"
  let ?ps = "prior_rows ?s i"
  let ?W = "drop (length ?ps - 5) ?ps"
  have i: "i < length ?s" using assms(1) by simp
  have w: "\<exists>v. Some v \<in> set (prior_window 5 numeric_result_col ?s i)"
    using assms(2) by (rule win_window_defined) simp
  have "length ?ps - 5 < length ?ps" using assms(2) by simp
  then have ne: "?W \<noteq> []" by simp
  have "prior_window 5 numeric_result_col ?s i =
        map (\<lambda>p. Some (to_numeric_result (result p))) ?W"
    by (simp add: prior_window_def Let_def drop_map numeric_result_col_def [abs_def])
  then have "nanmean (prior_window 5 numeric_result_col ?s i) =
        Some (sum_list (map (\<lambda>p. to_numeric_result (result p)) ?W) / real (length ?W))"
    using nanmean_all_present [OF ne, of "\<lambda>p. to_numeric_result (result p)"] by simp
  then show ?thesis
    using assms(1) form_feature_defined [OF i w] by (simp add: win_rate_form_engine)
qed

text \<open>
  Claim C10. \<open>to_numeric_result\<close> maps "win" to 1, "loss" to 0 and every other value
  (a draw, a missing value, any other text) to 0.5. This encoding is what the recent win
  rate averages: the \<open>numeric_result\<close> of a row is 1, 0 or 0.5 by its result, and the
  \<open>win_rate_rolling5\<close> of a row with prior matches in its group is the mean, over the
  last up-to-5 of them, of 1 for "win", 0 for "loss" and 0.5 for anything else. So when
  none of the prior results is "win" or "loss" the rate is 0.5.
\<close>

theorem to_numeric_result_encoding:
  "to_numeric_result (Text ''win'') = 1 \<and> to_numeric_result (Text ''loss'') = 0
   \<and> (r \<noteq> Text ''win'' \<and> r \<noteq> Text ''loss'' \<longrightarrow> to_numeric_result r = 1 / 2)
   \<and> (i < length df \<longrightarrow>
        numeric_result (form_engine df ! i) =
          (if result (sort_values df ! i) = Text ''win'' then 1
           else if result (sort_values df ! i) = Text ''loss'' then 0 else 1 / 2))
   \<and> (i < length df \<and> prior_rows (sort_values df) i \<noteq> [] \<longrightarrow>
        win_rate_rolling5 (form_engine df ! i) =
          Some (sum_list (map (\<lambda>p. if result p = Text ''win'' then 1
                                    else if result p = Text ''loss'' then 0 else 1 / 2)
                  (drop (length (prior_rows (sort_values df) i) - 5)
                     (prior_rows (sort_values df) i)))
               / real (length (drop (length (prior_rows (sort_values df) i) - 5)
                     (prior_rows (sort_values df) i)))))
   \<and> (i < length df \<and> prior_rows (sort_values df) i \<noteq> []
        \<and> (\<forall>p \<in> set (prior_rows (sort_values df) i).
              result p \<noteq> Text ''win'' \<and> result p \<noteq> Text ''loss'')
       \<longrightarrow> win_rate_rolling5 (form_engine df ! i) = Some (1 / 2))"
proof (intro conjI impI)
  assume h: "i < length df \<and> prior_rows (sort_values df) i \<noteq> []
        \<and> (\<forall>p \<in> set (prior_rows (sort_values df) i).
              result p \<noteq> Text ''win'' \<and> result p \<noteq> Text ''loss'')"
  let ?s = "sort_values df"
  let ?W = "prior_window 5 numeric_result_col ?s i"
  have i: "i < length ?s" using h by simp
  have w: "\<exists>v. Some v \<in> set ?W"
    using h by (intro win_window_defined) simp_all
  then have ne: "?W \<noteq> []" by auto
  have "\<forall>x \<in> set (map numeric_result_col (prior_rows ?s i)). x = Some (1 / 2)"
    using h by (auto simp: numeric_result_col_def)
  then have "\<forall>x \<in> set ?W. x = Some (1 / 2)"
    unfolding prior_window_def Let_def by (meson in_set_dropD)
  with ne have "nanmean ?W = Some (1 / 2)" by (rule nanmean_const)
  then show "win_rate_rolling5 (form_engine df ! i) = Some (1 / 2)"
    using h form_feature_defined [OF i w] by (simp add: win_rate_form_engine)
next
  assume "i < length df \<and> prior_rows (sort_values df) i \<noteq> []"
  then have "win_rate_rolling5 (form_engine df ! i) =
         Some (sum_list (map (\<lambda>p. to_numeric_result (result p))
                  (drop (length (prior_rows (sort_values df) i) - 5)
                     (prior_rows (sort_values df) i)))
               / real (length (drop (length (prior_rows (sort_values df) i) - 5)
                     (prior_rows (sort_values df) i))))"
    by (intro win_rate_is_mean) simp_all
  then show "win_rate_rolling5 (form_engine df ! i) =
          Some (sum_list (map (\<lambda>p. if result p = Text ''win'' then 1
                                    else if result p = Text ''loss'' then 0 else 1 / 2)
                  (drop (length (prior_rows (sort_values df) i) - 5)
                     (prior_rows (sort_values df) i)))
               / real (length (drop (length (prior_rows (sort_values df) i) - 5)
                     (prior_rows (sort_values df) i))))"
    by simp
next
  assume "i < length df"
  then show "numeric_result (form_engine df ! i) =
          (if result (sort_values df ! i) = Text ''win'' then 1
           else if result (sort_values df ! i) = Text ''loss'' then 0 else 1 / 2)"
    by (simp add: form_engine_def Let_def feat_row.defs form_row.defs)
qed simp_all

theorem to_numeric_result_encoding_witness:
  "to_numeric_result Missing = 1 / 2 \<and> to_numeric_result (Text ''draw'') = 1 / 2
   \<and> to_numeric_result (Text ''Win'') = 1 / 2
   \<and> win_rate_rolling5 (form_engine odd_results_table ! 3) = Some (1 / 2)
   \<and> numeric_result (form_engine (ubc_table 14 8 20) ! 0) = 1
   \<and> win_rate_rolling5 (form_engine (ubc_table 14 8 20) ! 2) = Some (3 / 4)"
proof -
  let ?s = "sort_values odd_results_table"
  have i: "3 < length odd_results_table" by (simp add: odd_results_table_def)
  have "length (prior_rows ?s 3) = 3" by code_simp
  then have ne: "prior_rows ?s 3 \<noteq> []" by auto
  have "list_all (\<lambda>p. result p \<noteq> Text ''win'' \<and> result p \<noteq> Text ''loss'') (prior_rows ?s 3)"
    by code_simp
  then have r: "\<forall>p \<in> set (prior_rows ?s 3). result p \<noteq> Text ''win'' \<and> result p \<noteq> Text ''loss''"
    by (simp add: list_all_iff)
  from to_numeric_result_encoding [of Missing 3 odd_results_table] i ne r
  have a: "to_numeric_result Missing = 1 / 2"
    "win_rate_rolling5 (form_engine odd_results_table ! 3) = Some (1 / 2)"
    by blast+
  from to_numeric_result_encoding [of "Text ''draw''" 0 "[]"]
  have b: "to_numeric_result (Text ''draw'') = 1 / 2" by simp
  from to_numeric_result_encoding [of "Text ''Win''" 0 "[]"]
  have c: "to_numeric_result (Text ''Win'') = 1 / 2" by simp
  let ?u = "ubc_table 14 8 20"
  have u0: "0 < length ?u" and u2: "2 < length ?u" by (simp_all add: ubc_table_def)
  have r0: "result (sort_values ?u ! 0) = Text ''win''" by code_simp
  have "length (prior_rows (sort_values ?u) 2) = 2" by code_simp
  then have une: "prior_rows (sort_values ?u) 2 \<noteq> []" by auto
  have m: "map result (drop (length (prior_rows (sort_values ?u) 2) - 5)
             (prior_rows (sort_values ?u) 2)) = [Text ''win'', Text ''draw'']"
    by code_simp
  note T0 = to_numeric_result_encoding [of Missing 0 ?u]
  from T0 u0 r0 have d: "numeric_result (form_engine ?u ! 0) = 1" by simp
  note T2 = to_numeric_result_encoding [of Missing 2 ?u]
  from T2 u2 une have "win_rate_rolling5 (form_engine ?u ! 2) =
          Some (sum_list (map (\<lambda>p. if result p = Text ''win'' then 1
                                    else if result p = Text ''loss'' then 0 else 1 / 2)
                  (drop (length (prior_rows (sort_values ?u) 2) - 5)
                     (prior_rows (sort_values ?u) 2)))
               / real (length (drop (length (prior_rows (sort_values ?u) 2) - 5)
                     (prior_rows (sort_values ?u) 2))))"
    by blast
  also have "\<dots> = Some (sum_list (map (\<lambda>x. if x = Text ''win'' then 1
                                    else if x = Text ''loss'' then 0 else 1 / 2)
                  (map result (drop (length (prior_rows (sort_values ?u) 2) - 5)
                     (prior_rows (sort_values ?u) 2))))
               / real (length (map result (drop (length (prior_rows (sort_values ?u) 2) - 5)
                     (prior_rows (sort_values ?u) 2)))))"
    by (simp add: comp_def)
  also have "\<dots> = Some (3 / 4)"
    unfolding m by simp
  finally have e: "win_rate_rolling5 (form_engine ?u ! 2) = Some (3 / 4)" .
  from a b c d e show ?thesis by blast
qed

subsection \<open>The opponent differencer\<close>

lemma filter_left_concat_pairs:
  "filter (\<lambda>(l, r). P l) (concat (map (\<lambda>l. map (\<lambda>r. (l, r)) (g l)) df)) =
   concat (map (\<lambda>l. map (\<lambda>r. (l, r)) (g l)) (filter P df))"
  by (induction df) (auto simp: filter_map comp_def)

lemma opponent_pairs_of_match:
  "filter (\<lambda>(l, r). match_id l = m) (opponent_pairs df) =
   filter (\<lambda>(l, r). team l \<noteq> team r)
     (concat (map (\<lambda>l. map (\<lambda>r. (l, r)) (filter (\<lambda>r. match_id r = m) df))
        (filter (\<lambda>r. match_id r = m) df)))"
proof -
  have "filter (\<lambda>(l, r). match_id l = m) (opponent_pairs df) =
        filter (\<lambda>(l, r). team l \<noteq> team r) (filter (\<lambda>(l, r). match_id l = m) (self_merge df))"
    unfolding opponent_pairs_def by (simp add: conj_commute case_prod_unfold)
  also have "filter (\<lambda>(l, r). match_id l = m) (self_merge df) =
        concat (map (\<lambda>l. map (\<lambda>r. (l, r)) (filter (\<lambda>r. match_id r = match_id l) df))
          (filter (\<lambda>r. match_id r = m) df))"
    unfolding self_merge_def by (rule filter_left_concat_pairs)
  also have "\<dots> = concat (map (\<lambda>l. map (\<lambda>r. (l, r)) (filter (\<lambda>r. match_id r = m) df))
          (filter (\<lambda>r. match_id r = m) df))"
    by (rule arg_cong [where f = concat], rule map_cong) auto
  finally show ?thesis .
qed

lemma opponent_pairs_two:
  assumes "filter (\<lambda>r. match_id r = m) df = [a, b]" and "team a \<noteq> team b"
  shows "filter (\<lambda>(l, r). match_id l = m) (opponent_pairs df) = [(a, b), (b, a)]"
  using assms by (auto simp: opponent_pairs_of_match)

lemma opponent_pairs_few:
  assumes "length (filter (\<lambda>r. match_id r = m) df) < 2"
  shows "filter (\<lambda>(l, r). match_id l = m) (opponent_pairs df) = []"
proof (cases "filter (\<lambda>r. match_id r = m) df")
  case Nil
  then show ?thesis by (simp add: opponent_pairs_of_match)
next
  case (Cons a as)
  with assms have "as = []" by simp
  with Cons show ?thesis by (simp add: opponent_pairs_of_match)
qed

lemma nan_minus_swap: "nan_minus x y = map_option uminus (nan_minus y x)"
  by (cases x; cases y) auto

lemma filter_add_opponent_features:
  "filter (\<lambda>r. match_id r = m) (add_opponent_features df) =
   map (\<lambda>(l, r). feat_row.extend l
            (opp_row.fields
               (\<lambda>c. if c \<in> set diff_cols then nan_minus (num l c) (num r c) else None)))
     (filter (\<lambda>(l, r). match_id l = m) (opponent_pairs df))"
  unfolding add_opponent_features_def
  by (simp add: filter_map comp_def case_prod_unfold feat_row.defs)

lemma filter_opponent_form_diff:
  "filter (\<lambda>r. match_id r = m) (opponent_form_diff df) =
   map (\<lambda>(l, r). form_row.extend l
            (prematch_row.fields
               (\<lambda>c. if c \<in> set stats_cols
                    then nan_minus (rolling3 l c) (rolling3 r c) else None)
               (nan_minus (win_rate_rolling5 l) (win_rate_rolling5 r))))
     (filter (\<lambda>(l, r). match_id l = m) (opponent_pairs df))"
  unfolding opponent_form_diff_def
  by (simp add: filter_map comp_def case_prod_unfold form_row.defs)

lemma py_eq_neg: "py_eq (map_option uminus z) (py_neg z) \<longleftrightarrow> z \<noteq> None"
  by (cases z) (auto simp: py_eq_def py_neg_def)

lemma nan_minus_present: "nan_minus y x \<noteq> None \<longleftrightarrow> x \<noteq> None \<and> y \<noteq> None"
  by (cases x; cases y) auto

text \<open>
  Claim C3, as the code has it. When the table holds exactly two rows for a match, with
  distinct teams A and B, the differencer's output holds exactly two rows for that match,
  one from each team's perspective. For every diff column, A's value is B's value negated
  cell by cell, and the comparison \<open>A.diff == -B.diff\<close> is true exactly when the
  statistic is present (not NaN) in both input rows; when it is NaN in either row both
  diffs are NaN and the comparison is false. This holds for the raw-statistic diffs of
  add\_opponent\_features.py and for the form diffs of build\_prematch\_features\_full.py.
\<close>

theorem pairing_symmetry:
  assumes "filter (\<lambda>r. match_id r = m) df = [a, b]" and "team a \<noteq> team b"
    and "filter (\<lambda>r. match_id r = m) fr = [fa, fb]" and "team fa \<noteq> team fb"
  shows "(\<exists>ra rb. filter (\<lambda>r. match_id r = m) (add_opponent_features df) = [ra, rb]
            \<and> team ra = team a \<and> team rb = team b
            \<and> (\<forall>c \<in> set diff_cols. diff ra c = nan_minus (num a c) (num b c)
                  \<and> diff ra c = map_option uminus (diff rb c)
                  \<and> (py_eq (diff ra c) (py_neg (diff rb c))
                       \<longleftrightarrow> num a c \<noteq> None \<and> num b c \<noteq> None)))
       \<and> (\<exists>ra rb. filter (\<lambda>r. match_id r = m) (opponent_form_diff fr) = [ra, rb]
            \<and> team ra = team fa \<and> team rb = team fb
            \<and> (\<forall>c \<in> set stats_cols. form_diff ra c = nan_minus (rolling3 fa c) (rolling3 fb c)
                  \<and> form_diff ra c = map_option uminus (form_diff rb c)
                  \<and> (py_eq (form_diff ra c) (py_neg (form_diff rb c))
                       \<longleftrightarrow> rolling3 fa c \<noteq> None \<and> rolling3 fb c \<noteq> None))
            \<and> win_rate_diff ra = map_option uminus (win_rate_diff rb)
            \<and> (py_eq (win_rate_diff ra) (py_neg (win_rate_diff rb))
                 \<longleftrightarrow> win_rate_rolling5 fa \<noteq> None \<and> win_rate_rolling5 fb \<noteq> None))"
proof (intro conjI)
  show "\<exists>ra rb. filter (\<lambda>r. match_id r = m) (add_opponent_features df) = [ra, rb]
            \<and> team ra = team a \<and> team rb = team b
            \<and> (\<forall>c \<in> set diff_cols. diff ra c = nan_minus (num a c) (num b c)
                  \<and> diff ra c = map_option uminus (diff rb c)
                  \<and> (py_eq (diff ra c) (py_neg (diff rb c))
                       \<longleftrightarrow> num a c \<noteq> None \<and> num b c \<noteq> None))"
    unfolding filter_add_opponent_features opponent_pairs_two [OF assms(1,2)]
    by (simp add: feat_row.defs opp_row.defs nan_minus_swap [of "num a _" "num b _"]
        py_eq_neg nan_minus_present del: not_None_eq)
  show "\<exists>ra rb. filter (\<lambda>r. match_id r = m) (opponent_form_diff fr) = [ra, rb]
            \<and> team ra = team fa \<and> team rb = team fb
            \<and> (\<forall>c \<in> set stats_cols. form_diff ra c = nan_minus (rolling3 fa c) (rolling3 fb c)
                  \<and> form_diff ra c = map_option uminus (form_diff rb c)
                  \<and> (py_eq (form_diff ra c) (py_neg (form_diff rb c))
                       \<longleftrightarrow> rolling3 fa c \<noteq> None \<and> rolling3 fb c \<noteq> None))
            \<and> win_rate_diff ra = map_option uminus (win_rate_diff rb)
            \<and> (py_eq (win_rate_diff ra) (py_neg (win_rate_diff rb))
                 \<longleftrightarrow> win_rate_rolling5 fa \<noteq> None \<and> win_rate_rolling5 fb \<noteq> None)"
    unfolding filter_opponent_form_diff opponent_pairs_two [OF assms(3,4)]
    by (simp add: form_row.defs prematch_row.defs
        nan_minus_swap [of "rolling3 fa _" "rolling3 fb _"]
        nan_minus_swap [of "win_rate_rolling5 fa" "win_rate_rolling5 fb"]
        py_eq_neg nan_minus_present del: not_None_eq)
qed

lemma filter_all_two:
  assumes "length xs = 2" and "list_all P xs"
  shows "filter P xs = [xs ! 0, xs ! 1]"
proof -
  from assms(1) obtain x y where "xs = [x, y]"
    by (cases xs; cases "tl xs") auto
  with assms(2) show ?thesis by simp
qed

text \<open>The scenario of the specification: 12 shots against 9 give diffs 3 and -3.\<close>

theorem pairing_symmetry_witness:
  "\<exists>ra rb. filter (\<lambda>r. match_id r = ''m'') (add_opponent_features two_team_table) = [ra, rb]
      \<and> team ra = ''teama'' \<and> team rb = ''teamb''
      \<and> diff ra Shots = Some 3 \<and> diff rb Shots = Some (- 3)
      \<and> py_eq (diff ra Shots) (py_neg (diff rb Shots))"
proof -
  let ?two = two_team_table
  have two: "filter (\<lambda>r. match_id r = ''m'') ?two = [?two ! 0, ?two ! 1]"
    by (rule filter_all_two) (simp_all add: two_team_table_def example_row_def)
  have teams: "team (?two ! 0) \<noteq> team (?two ! 1)"
    by (simp_all add: two_team_table_def example_row_def)
  have "list_all (\<lambda>r. match_id r = ''m'') (form_engine ?two)"
    by code_simp
  then have ftwo: "filter (\<lambda>r. match_id r = ''m'') (form_engine ?two) =
      [form_engine ?two ! 0, form_engine ?two ! 1]"
    by (intro filter_all_two) (simp_all add: two_team_table_def)
  have fteams: "team (form_engine ?two ! 0) \<noteq> team (form_engine ?two ! 1)"
    by code_simp
  from pairing_symmetry [OF two teams ftwo fteams]
  obtain ra rb where r: "filter (\<lambda>r. match_id r = ''m'') (add_opponent_features ?two) = [ra, rb]"
    "team ra = team (?two ! 0)" "team rb = team (?two ! 1)"
    "\<forall>c \<in> set diff_cols. diff ra c = nan_minus (num (?two ! 0) c) (num (?two ! 1) c)
        \<and> diff ra c = map_option uminus (diff rb c)
        \<and> (py_eq (diff ra c) (py_neg (diff rb c))
             \<longleftrightarrow> num (?two ! 0) c \<noteq> None \<and> num (?two ! 1) c \<noteq> None)"
    by blast
  have s: "Shots \<in> set diff_cols" by (simp add: diff_cols_def)
  have d1: "diff ra Shots = Some 3"
    using r(4) s by (simp add: two_team_table_def example_row_def)
  then have d2: "diff rb Shots = Some (- 3)"
    using r(4) s by (cases "diff rb Shots") auto
  from r(4) s have "py_eq (diff ra Shots) (py_neg (diff rb Shots))
      \<longleftrightarrow> num (?two ! 0) Shots \<noteq> None \<and> num (?two ! 1) Shots \<noteq> None"
    by blast
  moreover have "num (?two ! 0) Shots \<noteq> None" "num (?two ! 1) Shots \<noteq> None"
    by (simp_all add: two_team_table_def example_row_def)
  ultimately have e: "py_eq (diff ra Shots) (py_neg (diff rb Shots))"
    by blast
  have t: "team ra = ''teama''" "team rb = ''teamb''"
    using r(2,3) by (simp_all add: two_team_table_def example_row_def)
  from r(1) t d1 d2 e show ?thesis by blast
qed

text \<open>
  With a NaN input the comparison fails: a missing \<open>G_mean\<close> on one side makes both
  \<open>G_mean\<close> diffs NaN, and two teams without any history have NaN rolling means, so
  their form diffs are NaN.
\<close>

theorem pairing_nan_counterexample:
  "map team (add_opponent_features missing_mean_table) = [''teama'', ''teamb'']
   \<and> diff (add_opponent_features missing_mean_table ! 0) G_mean = None
   \<and> diff (add_opponent_features missing_mean_table ! 1) G_mean = None
   \<and> \<not> py_eq (diff (add_opponent_features missing_mean_table ! 0) G_mean)
            (py_neg (diff (add_opponent_features missing_mean_table ! 1) G_mean))
   \<and> map team (build_prematch_full two_team_table) = [''teama'', ''teamb'']
   \<and> form_diff (build_prematch_full two_team_table ! 0) Shots = None
   \<and> \<not> py_eq (form_diff (build_prematch_full two_team_table ! 0) Shots)
            (py_neg (form_diff (build_prematch_full two_team_table ! 1) Shots))"
  by code_simp

lemma count_pairs_two:
  assumes "filter (\<lambda>r. match_id r = m) df = [a, b]" and "team a \<noteq> team b"
  shows "filter (\<lambda>(l, r). match_id l = m \<and> team l = t) (opponent_pairs df) =
         (if t = team a then [(a, b)] else if t = team b then [(b, a)] else [])"
proof -
  have "filter (\<lambda>(l, r). match_id l = m \<and> team l = t) (opponent_pairs df) =
        filter (\<lambda>(l, r). team l = t) (filter (\<lambda>(l, r). match_id l = m) (opponent_pairs df))"
    by (simp add: case_prod_unfold conj_commute)
  also have "\<dots> = (if t = team a then [(a, b)] else if t = team b then [(b, a)] else [])"
    unfolding opponent_pairs_two [OF assms] using assms(2) by auto
  finally show ?thesis .
qed

lemma filter_team_add_opponent_features:
  "filter (\<lambda>r. match_id r = m \<and> team r = t) (add_opponent_features df) =
   map (\<lambda>(l, r). feat_row.extend l
            (opp_row.fields
               (\<lambda>c. if c \<in> set diff_cols then nan_minus (num l c) (num r c) else None)))
     (filter (\<lambda>(l, r). match_id l = m \<and> team l = t) (opponent_pairs df))"
  unfolding add_opponent_features_def
  by (simp add: filter_map comp_def case_prod_unfold feat_row.defs)

lemma filter_team_opponent_form_diff:
  "filter (\<lambda>r. match_id r = m \<and> team r = t) (opponent_form_diff df) =
   map (\<lambda>(l, r). form_row.extend l
            (prematch_row.fields
               (\<lambda>c. if c \<in> set stats_cols
                    then nan_minus (rolling3 l c) (rolling3 r c) else None)
               (nan_minus (win_rate_rolling5 l) (win_rate_rolling5 r))))
     (filter (\<lambda>(l, r). match_id l = m \<and> team l = t) (opponent_pairs df))"
  unfolding opponent_form_diff_def
  by (simp add: filter_map comp_def case_prod_unfold form_row.defs)

text \<open>
  Claim C5, as the code has it. A match with fewer than two rows in the differencer's
  input contributes no rows to its output, and a match with exactly two rows of distinct
  teams contributes exactly one row per (match, team). Nothing is said of a match with
  more than two rows.
\<close>

theorem differencer_row_counts:
  "(length (filter (\<lambda>r. match_id r = m) df) < 2 \<longrightarrow>
      filter (\<lambda>r. match_id r = m) (add_opponent_features df) = [])
   \<and> (length (filter (\<lambda>r. match_id r = m) fr) < 2 \<longrightarrow>
      filter (\<lambda>r. match_id r = m) (opponent_form_diff fr) = [])
   \<and> (\<forall>a b. filter (\<lambda>r. match_id r = m) df = [a, b] \<and> team a \<noteq> team b \<longrightarrow>
        (\<forall>t. length (filter (\<lambda>r. match_id r = m \<and> team r = t) (add_opponent_features df)) =
             (if t = team a \<or> t = team b then 1 else 0)))
   \<and> (\<forall>a b. filter (\<lambda>r. match_id r = m) fr = [a, b] \<and> team a \<noteq> team b \<longrightarrow>
        (\<forall>t. length (filter (\<lambda>r. match_id r = m \<and> team r = t) (opponent_form_diff fr)) =
             (if t = team a \<or> t = team b then 1 else 0)))"
proof (intro conjI allI impI)
  assume "length (filter (\<lambda>r. match_id r = m) df) < 2"
  then show "filter (\<lambda>r. match_id r = m) (add_opponent_features df) = []"
    by (simp add: filter_add_opponent_features opponent_pairs_few)
next
  assume "length (filter (\<lambda>r. match_id r = m) fr) < 2"
  then show "filter (\<lambda>r. match_id r = m) (opponent_form_diff fr) = []"
    by (simp add: filter_opponent_form_diff opponent_pairs_few)
next
  fix a b t
  assume "filter (\<lambda>r. match_id r = m) df = [a, b] \<and> team a \<noteq> team b"
  then have "filter (\<lambda>(l, r). match_id l = m \<and> team l = t) (opponent_pairs df) =
         (if t = team a then [(a, b)] else if t = team b then [(b, a)] else [])"
    by (intro count_pairs_two) simp_all
  then show "length (filter (\<lambda>r. match_id r = m \<and> team r = t) (add_opponent_features df)) =
             (if t = team a \<or> t = team b then 1 else 0)"
    by (simp add: filter_team_add_opponent_features)
next
  fix a b t
  assume "filter (\<lambda>r. match_id r = m) fr = [a, b] \<and> team a \<noteq> team b"
  then have "filter (\<lambda>(l, r). match_id l = m \<and> team l = t) (opponent_pairs fr) =
         (if t = team a then [(a, b)] else if t = team b then [(b, a)] else [])"
    by (intro count_pairs_two) simp_all
  then show "length (filter (\<lambda>r. match_id r = m \<and> team r = t) (opponent_form_diff fr)) =
             (if t = team a \<or> t = team b then 1 else 0)"
    by (simp add: filter_team_opponent_form_diff)
qed

theorem differencer_row_counts_witness:
  "filter (\<lambda>r. match_id r = ''m'') (add_opponent_features (take 1 two_team_table)) = []
   \<and> filter (\<lambda>r. match_id r = ''m'') (opponent_form_diff (form_engine (take 1 two_team_table))) = []
   \<and> length (filter (\<lambda>r. match_id r = ''m'' \<and> team r = ''teama'')
        (add_opponent_features two_team_table)) = 1
   \<and> length (filter (\<lambda>r. match_id r = ''m'' \<and> team r = ''teamb'')
        (opponent_form_diff (form_engine two_team_table))) = 1"
proof -
  let ?one = "take 1 two_team_table" and ?two = two_team_table
  have one: "length (filter (\<lambda>r. match_id r = ''m'') ?one) < 2"
    by (simp add: two_team_table_def)
  have fone: "length (filter (\<lambda>r. match_id r = ''m'') (form_engine ?one)) < 2"
    using length_filter_le [of "\<lambda>r. match_id r = ''m''" "form_engine ?one"]
    by (simp add: two_team_table_def)
  have two: "filter (\<lambda>r. match_id r = ''m'') ?two = [?two ! 0, ?two ! 1]"
    by (rule filter_all_two) (simp_all add: two_team_table_def example_row_def)
  have teams: "team (?two ! 0) \<noteq> team (?two ! 1)" "team (?two ! 0) = ''teama''"
    by (simp_all add: two_team_table_def example_row_def)
  have "list_all (\<lambda>r. match_id r = ''m'') (form_engine ?two)"
    by code_simp
  then have ftwo: "filter (\<lambda>r. match_id r = ''m'') (form_engine ?two) =
      [form_engine ?two ! 0, form_engine ?two ! 1]"
    by (intro filter_all_two) (simp_all add: two_team_table_def)
  have fteams: "team (form_engine ?two ! 0) \<noteq> team (form_engine ?two ! 1)"
    "team (form_engine ?two ! 1) = ''teamb''"
    by code_simp+
  note A = differencer_row_counts [of "''m''" ?one "form_engine ?one"]
  note B = differencer_row_counts [of "''m''" ?two "form_engine ?two"]
  from A one fone have
    "filter (\<lambda>r. match_id r = ''m'') (add_opponent_features ?one) = []"
    "filter (\<lambda>r. match_id r = ''m'') (opponent_form_diff (form_engine ?one)) = []"
    by blast+
  moreover have
    "length (filter (\<lambda>r. match_id r = ''m'' \<and> team r = ''teama'') (add_opponent_features ?two)) = 1"
  proof -
    from B have "filter (\<lambda>r. match_id r = ''m'') ?two = [?two ! 0, ?two ! 1]
        \<and> team (?two ! 0) \<noteq> team (?two ! 1) \<longrightarrow>
      length (filter (\<lambda>r. match_id r = ''m'' \<and> team r = ''teama'') (add_opponent_features ?two)) =
        (if ''teama'' = team (?two ! 0) \<or> ''teama'' = team (?two ! 1) then 1 else 0)"
      by blast
    with two teams show ?thesis by simp
  qed
  moreover have
    "length (filter (\<lambda>r. match_id r = ''m'' \<and> team r = ''teamb'')
        (opponent_form_diff (form_engine ?two))) = 1"
  proof -
    from B have "filter (\<lambda>r. match_id r = ''m'') (form_engine ?two) =
          [form_engine ?two ! 0, form_engine ?two ! 1]
        \<and> team (form_engine ?two ! 0) \<noteq> team (form_engine ?two ! 1) \<longrightarrow>
      length (filter (\<lambda>r. match_id r = ''m'' \<and> team r = ''teamb'')
          (opponent_form_diff (form_engine ?two))) =
        (if ''teamb'' = team (form_engine ?two ! 0) \<or> ''teamb'' = team (form_engine ?two ! 1)
         then 1 else 0)"
      by blast
    with ftwo fteams show ?thesis by simp
  qed
  ultimately show ?thesis by blast
qed

text \<open>
  A match with four input rows is not excluded: each row is paired with every row of the
  other team, which gives eight output rows, four per (match, team).
\<close>

theorem differencer_duplicates_counterexample:
  "length (filter (\<lambda>r. match_id r = ''m'') duplicated_match_table) = 4
   \<and> length (filter (\<lambda>r. match_id r = ''m'') (add_opponent_features duplicated_match_table)) = 8
   \<and> length (filter (\<lambda>r. match_id r = ''m'' \<and> team r = ''teama'')
        (add_opponent_features duplicated_match_table)) = 4
   \<and> length (filter (\<lambda>r. match_id r = ''m'') (build_prematch_full duplicated_match_table)) = 8"
  by code_simp

subsection \<open>The match aggregator\<close>

subsection \<open>Keys of the aggregator's tables\<close>

lemma distinct_group_keys: "distinct (group_keys rows)"
  by (simp add: group_keys_def)

lemma set_group_keys: "set (group_keys rows) = row_key ` set rows"
  by (simp add: group_keys_def)

lemma team_stats_keys: "map row_key (team_stats box) = group_keys box"
  by (simp add: team_stats_def row_key_def Let_def comp_def)

lemma box_lineup_keys:
  "set (map (\<lambda>(b, pg, yn). row_key b) (box_lineup box ls)) = row_key ` set box"
proof -
  let ?g = "\<lambda>(b :: box_row, pg :: string option, yn :: real option). row_key b"
  let ?f = "\<lambda>b. (case filter (\<lambda>l. lu_player l = player b \<and> lu_team l = team b) ls of
              [] \<Rightarrow> [(b, None, None)]
            | l # ls' \<Rightarrow> map (\<lambda>l. (b, Some (position_group l), year_num l)) (l # ls'))"
  have one: "\<And>b. ?g ` set (?f b) = {row_key b}"
    by (auto split: list.splits)
  have "set (map ?g (box_lineup box ls)) = (\<Union>b\<in>set box. ?g ` set (?f b))"
    unfolding box_lineup_def by (simp add: image_UN)
  also have "\<dots> = (\<Union>b\<in>set box. {row_key b})"
    using one by simp
  also have "\<dots> = row_key ` set box" by auto
  finally show ?thesis .
qed

lemma filter_eq_distinct:
  assumes "distinct xs" and "k \<in> set xs"
  shows "filter (\<lambda>k'. k' = k) xs = [k]"
  using assms by (induction xs) (auto simp: filter_empty_conv)

lemma roster_summary_keys:
  "map fst (roster_summary box ls) =
   sort (remdups (map (\<lambda>(b, pg, yn). row_key b) (box_lineup box ls)))"
  by (simp add: roster_summary_def comp_def)

lemma roster_final_keys: "map fst (roster_final box ls) = map fst (roster_summary box ls)"
  by (simp add: roster_final_def Let_def comp_def case_prod_unfold)

lemma distinct_roster_keys: "distinct (map fst (roster_final box ls))"
  by (simp add: roster_final_keys roster_summary_keys)

lemma set_roster_keys: "set (map fst (roster_final box ls)) = row_key ` set box"
  using box_lineup_keys [of box ls]
  by (simp add: roster_final_keys roster_summary_keys)

lemma filter_distinct_key:
  assumes "distinct (map fst xs)"
  shows "length (filter (\<lambda>x. fst x = k) xs) = (if k \<in> fst ` set xs then 1 else 0)"
  using assms by (induction xs) (auto simp: image_iff)

lemma roster_lookup:
  assumes "k \<in> row_key ` set box"
  shows "filter (\<lambda>(k', y, d). k' = k) (roster_final box ls) =
         [(k, nanmean (map (\<lambda>(b, pg, yn). yn)
                          (filter (\<lambda>(b, pg, yn). row_key b = k) (box_lineup box ls))),
           expand_row (position_columns (map (\<lambda>(k, y, d). d) (roster_summary box ls)))
             (value_counts (group_positions box ls k)))]"
proof -
  let ?keys = "sort (remdups (map (\<lambda>(b, pg, yn). row_key b) (box_lineup box ls)))"
  let ?cols = "position_columns (map (\<lambda>(k, y, d). d) (roster_summary box ls))"
  let ?row = "\<lambda>k. (k, nanmean (map (\<lambda>(b, pg, yn). yn)
                          (filter (\<lambda>(b, pg, yn). row_key b = k) (box_lineup box ls))),
           expand_row ?cols (value_counts (group_positions box ls k)))"
  have rf: "roster_final box ls = map ?row ?keys"
    by (simp add: roster_final_def roster_summary_def Let_def comp_def)
  have "filter (\<lambda>(k', y, d). k' = k) (map ?row ?keys) = map ?row (filter (\<lambda>k'. k' = k) ?keys)"
    by (simp add: filter_map comp_def)
  moreover have "filter (\<lambda>k'. k' = k) ?keys = [k]"
  proof (rule filter_eq_distinct)
    show "distinct ?keys" by simp
    show "k \<in> set ?keys"
      using assms box_lineup_keys [of box ls] by simp
  qed
  ultimately show ?thesis by (simp add: rf)
qed


subsection \<open>The merged feature rows\<close>

lemma concat_singletons: "concat (map (\<lambda>x. [g x]) xs) = map g xs"
  by (induction xs) simp_all

lemma features_rows:
  "features box ls =
   map (\<lambda>s. stats_row.extend s
          (features_row.fields (roster_year box ls (row_key s))
             (map (\<lambda>(c, v). (c, Some v)) (roster_props box ls (row_key s)))))
       (team_stats box)"
proof -
  let ?cols = "position_columns (map (\<lambda>(k, y, d). d) (roster_summary box ls))"
  let ?one = "\<lambda>s. stats_row.extend s
          (features_row.fields (roster_year box ls (row_key s))
             (map (\<lambda>(c, v). (c, Some v)) (roster_props box ls (row_key s))))"
  let ?F = "\<lambda>s.
           (case filter (\<lambda>(k, y, d). k = row_key s) (roster_final box ls) of
              [] \<Rightarrow> [stats_row.extend s (features_row.fields None (map (\<lambda>c. (c, None)) ?cols))]
            | r # rs \<Rightarrow>
                map (\<lambda>(k, y, d). stats_row.extend s
                       (features_row.fields y (map (\<lambda>(c, v). (c, Some v)) d)))
                    (r # rs))"
  have E: "map ?F (team_stats box) = map (\<lambda>s. [?one s]) (team_stats box)"
  proof (rule map_cong [OF refl])
    fix s assume "s \<in> set (team_stats box)"
    then have "row_key s \<in> set (map row_key (team_stats box))" by simp
    then have "row_key s \<in> row_key ` set box"
      by (simp only: team_stats_keys set_group_keys)
    then show "?F s = [?one s]"
      by (simp add: roster_lookup roster_year_def roster_props_def)
  qed
  have "features box ls = concat (map ?F (team_stats box))"
    unfolding features_def Let_def ..
  also have "\<dots> = concat (map (\<lambda>s. [?one s]) (team_stats box))"
    by (rule arg_cong [where f = concat]) (rule E)
  also have "\<dots> = map ?one (team_stats box)"
    by (rule concat_singletons)
  finally show ?thesis .
qed

lemma features_keys: "map row_key (features box ls) = group_keys box"
proof -
  have "map row_key (features box ls) = map row_key (team_stats box)"
    by (simp add: features_rows comp_def row_key_def stats_row.defs)
  then show ?thesis by (simp add: team_stats_keys)
qed

lemma features_count:
  "length (filter (\<lambda>f. row_key f = k) (features box ls)) =
   (if k \<in> row_key ` set box then 1 else 0)"
proof -
  have "length (filter (\<lambda>f. row_key f = k) (features box ls)) =
        length (filter (\<lambda>k'. k' = k) (map row_key (features box ls)))"
    by (simp add: filter_map comp_def)
  also have "\<dots> = (if k \<in> row_key ` set box then 1 else 0)"
    using filter_eq_distinct [OF distinct_group_keys, of k box]
    by (auto simp: features_keys set_group_keys filter_empty_conv)
  finally show ?thesis .
qed

subsection \<open>The inner merges with the fixtures\<close>

lemma filter_merge_side:
  "filter (\<lambda>r. match_id r = m) (merge_side h side fs ms) =
   merge_side h side (filter (\<lambda>f. match_id f = m) fs) ms"
  unfolding merge_side_def
  by (induction fs) (auto simp: filter_map comp_def features_row.defs filter_empty_conv)

lemma merge_side_one_fixture:
  assumes "filter (\<lambda>x. match_id x = m) ms = [x]"
  shows "merge_side h side (filter (\<lambda>f. match_id f = m) fs) ms =
         map (\<lambda>f. features_row.extend f (team_match_row.fields x h (result_of h x)))
           (filter (\<lambda>f. row_key f = (m, side x)) fs)"
proof -
  have one: "\<And>t. filter (\<lambda>y. match_id y = m \<and> side y = t) ms = (if side x = t then [x] else [])"
  proof -
    fix t
    have "filter (\<lambda>y. match_id y = m \<and> side y = t) ms =
          filter (\<lambda>y. side y = t) (filter (\<lambda>x. match_id x = m) ms)"
      by (simp add: conj_commute)
    then show "filter (\<lambda>y. match_id y = m \<and> side y = t) ms = (if side x = t then [x] else [])"
      by (simp add: assms)
  qed
  show ?thesis
    unfolding merge_side_def
    by (induction fs) (auto simp: one row_key_def)
qed

lemma is_home_merge_side: "r \<in> set (merge_side h side fs ms) \<Longrightarrow> is_home r = h"
  by (auto simp: merge_side_def features_row.defs team_match_row.defs)

lemma sum_value_counts:
  assumes "present xs \<noteq> []"
  shows "sum_list (map snd (value_counts xs)) = 1"
proof -
  let ?ys = "present xs"
  have "sum_list (map snd (value_counts xs)) =
        sum_list (map (\<lambda>v. real (count_list ?ys v) / real (length ?ys)) (remdups ?ys))"
    by (simp add: value_counts_def Let_def comp_def)
  also have "\<dots> = (\<Sum>v\<in>set ?ys. real (count_list ?ys v) / real (length ?ys))"
    using sum_list_distinct_conv_sum_set [of "remdups ?ys"] by simp
  also have "\<dots> = real (\<Sum>v\<in>set ?ys. count_list ?ys v) / real (length ?ys)"
    by (simp add: sum_divide_distrib)
  also have "(\<Sum>v\<in>set ?ys. count_list ?ys v) = length ?ys"
    by (rule sum_count_set) simp_all
  finally show ?thesis using assms by simp
qed

lemma value_counts_empty:
  assumes "present xs = []"
  shows "value_counts xs = []"
  using assms by (simp add: value_counts_def)

lemma distinct_value_counts: "distinct (map fst (value_counts xs))"
  by (simp add: value_counts_def Let_def comp_def)

lemma expand_row_sum:
  assumes "distinct cols" and "distinct (map fst d)" and "set (map fst d) \<subseteq> set cols"
  shows "sum_list (map snd (expand_row cols d)) = sum_list (map snd d)"
proof -
  let ?g = "\<lambda>c. case map_of d c of None \<Rightarrow> (0::real) | Some v \<Rightarrow> v"
  have "sum_list (map snd (expand_row cols d)) = sum_list (map ?g cols)"
    by (simp add: expand_row_def comp_def)
  also have "\<dots> = sum ?g (set cols)"
    using assms(1) by (rule sum_list_distinct_conv_sum_set)
  also have "\<dots> = sum ?g (set (map fst d))"
  proof (rule sum.mono_neutral_right)
    show "finite (set cols)" by simp
    show "set (map fst d) \<subseteq> set cols" by (rule assms(3))
    show "\<forall>c\<in>set cols - set (map fst d). ?g c = 0"
      by (auto simp: map_of_eq_None_iff [THEN iffD2])
  qed
  also have "\<dots> = sum_list (map ?g (map fst d))"
    using assms(2) by (rule sum_list_distinct_conv_sum_set [symmetric])
  also have "\<dots> = sum_list (map snd d)"
  proof -
    have "\<And>p. p \<in> set d \<Longrightarrow> ?g (fst p) = snd p"
    proof -
      fix p assume "p \<in> set d"
      then have "map_of d (fst p) = Some (snd p)"
        using assms(2) map_of_is_SomeI [of d "fst p" "snd p"] by simp
      then show "?g (fst p) = snd p" by simp
    qed
    then have "map ?g (map fst d) = map snd d"
      unfolding map_map map_eq_conv by simp
    then show ?thesis by (rule arg_cong)
  qed
  finally show ?thesis .
qed

lemma expand_row_empty: "expand_row cols [] = map (\<lambda>c. (c, 0)) cols"
  by (simp add: expand_row_def)

lemma dict_in_columns:
  assumes "d \<in> set dicts"
  shows "set (map fst d) \<subseteq> set (position_columns dicts)"
  using assms by (auto simp: position_columns_def)

lemma value_counts_in_columns:
  assumes "k \<in> row_key ` set box"
  shows "set (map fst (value_counts (group_positions box ls k))) \<subseteq>
         set (position_columns (map (\<lambda>(k, y, d). d) (roster_summary box ls)))"
proof -
  have "k \<in> set (sort (remdups (map (\<lambda>(b, pg, yn). row_key b) (box_lineup box ls))))"
    using assms box_lineup_keys [of box ls] by simp
  then have "value_counts (group_positions box ls k) \<in>
        set (map (\<lambda>(k, y, d). d) (roster_summary box ls))"
    by (force simp: roster_summary_def)
  then show ?thesis
    by (rule dict_in_columns)
qed

lemma roster_props_sum:
  assumes "k \<in> row_key ` set box"
  shows "sum_list (map snd (roster_props box ls k)) =
         sum_list (map snd (value_counts (group_positions box ls k)))"
  unfolding roster_props_def
proof (rule expand_row_sum)
  show "distinct (position_columns (map (\<lambda>(k, y, d). d) (roster_summary box ls)))"
    by (simp add: position_columns_def)
  show "distinct (map fst (value_counts (group_positions box ls k)))"
    by (rule distinct_value_counts)
  show "set (map fst (value_counts (group_positions box ls k))) \<subseteq>
        set (position_columns (map (\<lambda>(k, y, d). d) (roster_summary box ls)))"
    using assms by (rule value_counts_in_columns)
qed

lemma features_row_props:
  assumes "f \<in> set (features box ls)"
  shows "props f = map (\<lambda>(c, v). (c, Some v)) (roster_props box ls (row_key f))"
    and "row_key f \<in> row_key ` set box"
proof -
  from assms obtain s where s: "s \<in> set (team_stats box)"
    and f: "f = stats_row.extend s
          (features_row.fields (roster_year box ls (row_key s))
             (map (\<lambda>(c, v). (c, Some v)) (roster_props box ls (row_key s))))"
    unfolding features_rows by auto
  have k: "row_key f = row_key s"
    by (simp add: f row_key_def stats_row.defs)
  show "props f = map (\<lambda>(c, v). (c, Some v)) (roster_props box ls (row_key f))"
    unfolding k by (simp add: f stats_row.defs features_row.defs)
  from assms have "row_key f \<in> set (map row_key (features box ls))" by simp
  then show "row_key f \<in> row_key ` set box"
    by (simp only: features_keys set_group_keys)
qed

lemma aggregate_row_features:
  assumes "r \<in> set (aggregate box ls ms)"
  shows "\<exists>f \<in> set (features box (clean_lineups ls)).
           row_key r = row_key f \<and> props r = props f
           \<and> goals r = goals f \<and> shots r = shots f \<and> sog r = sog f \<and> assists r = assists f
           \<and> player_count r = player_count f"
  using assms
  by (auto simp: aggregate_def Let_def merge_side_def row_key_def features_row.defs)

subsection \<open>Rows per match\<close>

text \<open>
  Claim C4, as the code has it. For a match with exactly one fixture row in the matches
  table, the aggregator's output holds one home row exactly when the home team has a
  boxscore row for the match, and one away row exactly when the away team has one: two
  rows when both participants are resolvable, none when neither is, and a single row
  when exactly one is.
\<close>

theorem aggregator_rows_per_match:
  assumes "filter (\<lambda>x. match_id x = m) (clean_matches ms) = [x]"
  shows "length (filter (\<lambda>r. match_id r = m \<and> is_home r = 1) (aggregate box ls ms)) =
           (if (m, home_team x) \<in> row_key ` set box then 1 else 0)
       \<and> length (filter (\<lambda>r. match_id r = m \<and> is_home r = 0) (aggregate box ls ms)) =
           (if (m, away_team x) \<in> row_key ` set box then 1 else 0)
       \<and> length (filter (\<lambda>r. match_id r = m) (aggregate box ls ms)) =
           (if (m, home_team x) \<in> row_key ` set box then 1 else 0)
           + (if (m, away_team x) \<in> row_key ` set box then 1 else 0)"
proof -
  let ?fs = "features box (clean_lineups ls)" and ?ms = "clean_matches ms"
  let ?H = "merge_side 1 home_team ?fs ?ms" and ?A = "merge_side 0 away_team ?fs ?ms"
  have agg: "aggregate box ls ms = ?H @ ?A"
    by (simp add: aggregate_def Let_def)
  have H: "length (filter (\<lambda>r. match_id r = m) ?H) =
        (if (m, home_team x) \<in> row_key ` set box then 1 else 0)"
    unfolding filter_merge_side merge_side_one_fixture [OF assms]
    by (simp add: features_count)
  have A: "length (filter (\<lambda>r. match_id r = m) ?A) =
        (if (m, away_team x) \<in> row_key ` set box then 1 else 0)"
    unfolding filter_merge_side merge_side_one_fixture [OF assms]
    by (simp add: features_count)
  have H1: "filter (\<lambda>r. match_id r = m \<and> is_home r = 1) ?H = filter (\<lambda>r. match_id r = m) ?H"
    by (rule filter_cong [OF refl]) (simp add: is_home_merge_side)
  have H0: "filter (\<lambda>r. match_id r = m \<and> is_home r = 0) ?H = []"
    by (auto simp: filter_empty_conv dest: is_home_merge_side)
  have A0: "filter (\<lambda>r. match_id r = m \<and> is_home r = 0) ?A = filter (\<lambda>r. match_id r = m) ?A"
    by (rule filter_cong [OF refl]) (simp add: is_home_merge_side)
  have A1: "filter (\<lambda>r. match_id r = m \<and> is_home r = 1) ?A = []"
    by (auto simp: filter_empty_conv dest: is_home_merge_side)
  show ?thesis
    unfolding agg filter_append length_append H1 H0 A1 A0 H A by simp
qed

theorem aggregator_rows_per_match_witness:
  "length (filter (\<lambda>r. match_id r = ''m1'')
     (aggregate example_box_rows example_lineups example_matches)) = 2
   \<and> length (filter (\<lambda>r. match_id r = ''m1'')
     (aggregate (take 1 example_box_rows) example_lineups example_matches)) = 1"
proof -
  let ?x = "\<lparr>match_id = ''m1'', home_team = ''ubc'', away_team = ''calgary'',
       home_goals = Some 1, away_goals = Some 0\<rparr>"
  have x: "filter (\<lambda>x. match_id x = ''m1'') (clean_matches example_matches) = [?x]"
    by code_simp
  have k2: "(''m1'', home_team ?x) \<in> row_key ` set example_box_rows"
    "(''m1'', away_team ?x) \<in> row_key ` set example_box_rows"
    by (simp_all add: example_box_rows_def row_key_def)
  have k1: "(''m1'', home_team ?x) \<in> row_key ` set (take 1 example_box_rows)"
    "(''m1'', away_team ?x) \<notin> row_key ` set (take 1 example_box_rows)"
    by (simp_all add: example_box_rows_def row_key_def)
  from aggregator_rows_per_match [OF x, of example_box_rows example_lineups] k2
  have "length (filter (\<lambda>r. match_id r = ''m1'')
     (aggregate example_box_rows example_lineups example_matches)) = 2"
    by simp
  moreover from aggregator_rows_per_match [OF x, of "take 1 example_box_rows" example_lineups] k1
  have "length (filter (\<lambda>r. match_id r = ''m1'')
     (aggregate (take 1 example_box_rows) example_lineups example_matches)) = 1"
    by simp
  ultimately show ?thesis by (rule conjI)
qed

text \<open>
  A match whose away team has no boxscore rows yields a single row, for the home team.
\<close>

theorem aggregator_single_row_counterexample:
  "map (\<lambda>r. (match_id r, team r, is_home r))
     (aggregate (take 1 example_box_rows) example_lineups example_matches) =
   [(''m1'', ''ubc'', 1)]"
  by code_simp

subsection \<open>Position-group proportions\<close>

text \<open>
  Claim C9, as the code has it. In every row of the aggregator's output the proportion
  columns are never NaN. They sum to 1 when at least one player row of the group was
  matched to a lineup entry (its position group is not NaN after the left merge), and
  they are all 0 when none was.
\<close>

theorem position_proportions:
  assumes "r \<in> set (aggregate box ls ms)"
  shows "(\<forall>(c, v) \<in> set (props r). v \<noteq> None)
       \<and> (matched_positions box (clean_lineups ls) (row_key r) \<noteq> [] \<longrightarrow>
            sum_list (map (\<lambda>(c, v). the v) (props r)) = 1)
       \<and> (matched_positions box (clean_lineups ls) (row_key r) = [] \<longrightarrow>
            (\<forall>(c, v) \<in> set (props r). v = Some 0))"
proof -
  let ?ls = "clean_lineups ls"
  from aggregate_row_features [OF assms]
  obtain f where f: "f \<in> set (features box ?ls)" "row_key r = row_key f" "props r = props f"
    by blast
  have p: "props r = map (\<lambda>(c, v). (c, Some v)) (roster_props box ?ls (row_key r))"
    using features_row_props(1) [OF f(1)] f(2,3) by simp
  have k: "row_key r \<in> row_key ` set box"
    using features_row_props(2) [OF f(1)] f(2) by simp
  have sum: "sum_list (map (\<lambda>(c, v). the v) (props r)) =
        sum_list (map snd (roster_props box ?ls (row_key r)))"
    unfolding p by (simp add: comp_def case_prod_unfold)
  show ?thesis
  proof (intro conjI impI)
    show "\<forall>(c, v) \<in> set (props r). v \<noteq> None"
      unfolding p by auto
    assume "matched_positions box ?ls (row_key r) \<noteq> []"
    then have "present (group_positions box ?ls (row_key r)) \<noteq> []"
      by (simp add: matched_positions_def)
    then have "sum_list (map snd (value_counts (group_positions box ?ls (row_key r)))) = 1"
      by (rule sum_value_counts)
    then show "sum_list (map (\<lambda>(c, v). the v) (props r)) = 1"
      using sum roster_props_sum [OF k, of ?ls] by simp
  next
    assume "matched_positions box ?ls (row_key r) = []"
    then have "value_counts (group_positions box ?ls (row_key r)) = []"
      by (simp add: matched_positions_def value_counts_empty)
    then show "\<forall>(c, v) \<in> set (props r). v = Some 0"
      unfolding p roster_props_def by (auto simp: expand_row_empty)
  qed
qed

theorem position_proportions_witness:
  "sum_list (map (\<lambda>(c, v). the v)
      (props (aggregate example_box_rows example_lineups example_matches ! 1))) = 1
   \<and> snd (hd (props (aggregate example_box_rows example_lineups example_matches ! 0))) = Some 0"
proof -
  let ?out = "aggregate example_box_rows example_lineups example_matches"
  have "length ?out = 2" by code_simp
  then have r: "?out ! 0 \<in> set ?out" "?out ! 1 \<in> set ?out" by simp_all
  have m1: "matched_positions example_box_rows (clean_lineups example_lineups)
              (row_key (?out ! 1)) \<noteq> []"
    by code_simp
  have m0: "matched_positions example_box_rows (clean_lineups example_lineups)
              (row_key (?out ! 0)) = []"
    by code_simp
  have "length (props (?out ! 0)) = 1" by code_simp
  then have ne: "hd (props (?out ! 0)) \<in> set (props (?out ! 0))"
    by (cases "props (?out ! 0)") simp_all
  from position_proportions [OF r(2)] m1
  have "sum_list (map (\<lambda>(c, v). the v) (props (?out ! 1))) = 1" by blast
  moreover from position_proportions [OF r(1)] m0
  have "\<forall>(c, v) \<in> set (props (?out ! 0)). v = Some 0" by blast
  with ne have "snd (hd (props (?out ! 0))) = Some 0"
    by (auto simp: case_prod_unfold)
  ultimately show ?thesis by (rule conjI)
qed

text \<open>
  A row produced from one player row, not found in the lineups: its proportions sum to 0.
\<close>

theorem position_proportions_counterexample:
  "team (aggregate example_box_rows example_lineups example_matches ! 0) = ''ubc''
   \<and> player_count (aggregate example_box_rows example_lineups example_matches ! 0) = 1
   \<and> props (aggregate example_box_rows example_lineups example_matches ! 0) = [(''mid'', Some 0)]
   \<and> sum_list (map (\<lambda>(c, v). the v)
        (props (aggregate example_box_rows example_lineups example_matches ! 0))) = 0"
  by code_simp

subsection \<open>Missing statistic columns\<close>

lemma text_column_ok:
  assumes "has_text_column f col"
  shows "\<exists>xs. text_column f col = Inr xs"
  using assms
  by (auto simp: has_text_column_def text_column_def split: option.splits series.splits)

lemma nested_zip_members:
  assumes "(m, t, p, sh, so, g, a) \<in> set (zip ms (zip ts (zip ps (zip A (zip B (zip C D))))))"
  shows "sh \<in> set A \<and> so \<in> set B \<and> g \<in> set C \<and> a \<in> set D"
proof -
  from assms have "(t, p, sh, so, g, a) \<in> set (zip ts (zip ps (zip A (zip B (zip C D)))))"
    by (rule set_zip_rightD)
  then have "(p, sh, so, g, a) \<in> set (zip ps (zip A (zip B (zip C D))))"
    by (rule set_zip_rightD)
  then have 1: "(sh, so, g, a) \<in> set (zip A (zip B (zip C D)))"
    by (rule set_zip_rightD)
  then have 2: "(so, g, a) \<in> set (zip B (zip C D))"
    by (rule set_zip_rightD)
  then have 3: "(g, a) \<in> set (zip C D)"
    by (rule set_zip_rightD)
  from 1 2 3 show ?thesis
    by (blast dest: set_zip_leftD set_zip_rightD)
qed

lemma box_rows_stats:
  assumes "box_rows parse f = Inr rows" and "b \<in> set rows"
  shows "shots b \<in> set (stat_values parse f ''shots'')
       \<and> sog b \<in> set (stat_values parse f ''sog'')
       \<and> goals b \<in> set (stat_values parse f ''goals'')
       \<and> assists b \<in> set (stat_values parse f ''assists'')"
proof -
  from assms(1) obtain ms ts ps where
    rows: "rows = map (\<lambda>(m, t, p, sh, so, g, a).
                    \<lparr>match_id = m, team = t, goals = g, shots = sh, sog = so, assists = a,
                     player = p\<rparr>)
               (zip ms (zip ts (zip ps
                 (zip (stat_values parse f ''shots'') (zip (stat_values parse f ''sog'')
                   (zip (stat_values parse f ''goals'') (stat_values parse f ''assists'')))))))"
    by (auto simp: box_rows_def split: sum.splits)
  with assms(2) obtain m t p sh so g a where
    b: "b = \<lparr>match_id = m, team = t, goals = g, shots = sh, sog = so, assists = a, player = p\<rparr>"
    and mem: "(m, t, p, sh, so, g, a) \<in> set (zip ms (zip ts (zip ps
                 (zip (stat_values parse f ''shots'') (zip (stat_values parse f ''sog'')
                   (zip (stat_values parse f ''goals'') (stat_values parse f ''assists'')))))))"
    by auto
  from nested_zip_members [OF mem] show ?thesis by (simp add: b)
qed

lemma stat_values_absent:
  assumes "map_of (columns f) col = None"
  shows "set (stat_values parse f col) \<subseteq> {0}"
  using assms by (auto simp: stat_values_def)

lemma team_stats_sums:
  assumes "s \<in> set (team_stats box)"
  shows "\<exists>g. set g \<subseteq> set box \<and> goals s = sum_list (map goals g)
            \<and> shots s = sum_list (map shots g) \<and> sog s = sum_list (map sog g)
            \<and> assists s = sum_list (map assists g) \<and> player_count s = length g"
proof -
  from assms obtain k where
    "s = (let g = filter (\<lambda>b. row_key b = k) box in
              \<lparr>match_id = fst k, team = snd k,
               goals = sum_list (map goals g), shots = sum_list (map shots g),
               sog = sum_list (map sog g), assists = sum_list (map assists g),
               player_count = length g\<rparr>)"
    unfolding team_stats_def by auto
  then show ?thesis
    by (intro exI [of _ "filter (\<lambda>b. row_key b = k) box"]) (simp add: Let_def)
qed

lemma features_row_stats:
  assumes "f \<in> set (features box ls)"
  shows "\<exists>s \<in> set (team_stats box). goals f = goals s \<and> shots f = shots s
           \<and> sog f = sog s \<and> assists f = assists s \<and> player_count f = player_count s"
  using assms unfolding features_rows by (auto simp: stats_row.defs)

lemma sum_list_zero:
  assumes "\<forall>x \<in> set xs. f x = (0::real)"
  shows "sum_list (map f xs) = 0"
  using assms by (induction xs) simp_all

lemma aggregate_row_sums:
  assumes "r \<in> set (aggregate box ls ms)"
  shows "\<exists>g. set g \<subseteq> set box \<and> goals r = sum_list (map goals g)
            \<and> shots r = sum_list (map shots g) \<and> sog r = sum_list (map sog g)
            \<and> assists r = sum_list (map assists g) \<and> player_count r = length g"
proof -
  from aggregate_row_features [OF assms]
  obtain f where f: "f \<in> set (features box (clean_lineups ls))"
    "goals r = goals f" "shots r = shots f" "sog r = sog f" "assists r = assists f"
    "player_count r = player_count f"
    by blast
  from features_row_stats [OF f(1)]
  obtain s where s: "s \<in> set (team_stats box)"
    "goals f = goals s" "shots f = shots s" "sog f = sog s" "assists f = assists s"
    "player_count f = player_count s"
    by blast
  from team_stats_sums [OF s(1)] f(2-) s(2-) show ?thesis by simp
qed

lemma absent_stat_zero:
  assumes "box_rows parse f = Inr rows" and "set g \<subseteq> set rows"
  shows "map_of (columns f) ''shots'' = None \<Longrightarrow> sum_list (map shots g) = 0"
    and "map_of (columns f) ''sog'' = None \<Longrightarrow> sum_list (map sog g) = 0"
    and "map_of (columns f) ''goals'' = None \<Longrightarrow> sum_list (map goals g) = 0"
    and "map_of (columns f) ''assists'' = None \<Longrightarrow> sum_list (map assists g) = 0"
proof -
  have mem: "\<And>b. b \<in> set g \<Longrightarrow>
      shots b \<in> set (stat_values parse f ''shots'')
       \<and> sog b \<in> set (stat_values parse f ''sog'')
       \<and> goals b \<in> set (stat_values parse f ''goals'')
       \<and> assists b \<in> set (stat_values parse f ''assists'')"
    using box_rows_stats [OF assms(1)] assms(2) by blast
  show "map_of (columns f) ''shots'' = None \<Longrightarrow> sum_list (map shots g) = 0"
    using mem stat_values_absent [of f "''shots''" parse]
    by (intro sum_list_zero ballI) blast
  show "map_of (columns f) ''sog'' = None \<Longrightarrow> sum_list (map sog g) = 0"
    using mem stat_values_absent [of f "''sog''" parse]
    by (intro sum_list_zero ballI) blast
  show "map_of (columns f) ''goals'' = None \<Longrightarrow> sum_list (map goals g) = 0"
    using mem stat_values_absent [of f "''goals''" parse]
    by (intro sum_list_zero ballI) blast
  show "map_of (columns f) ''assists'' = None \<Longrightarrow> sum_list (map assists g) = 0"
    using mem stat_values_absent [of f "''assists''" parse]
    by (intro sum_list_zero ballI) blast
qed

text \<open>
  Claim C7, as the code has it. When the identifier columns match\_id, team and player are
  present as text columns (and the lineups table has its roster columns), the stage
  returns an output table whether or not the statistic columns are present; a statistic
  column (shots, sog, goals, assists) that is absent from the boxscore input is replaced
  by the default 0, so that statistic is 0 in every output row.
\<close>

theorem missing_stat_column_defaults:
  assumes "has_text_column (prepare_box box) ''match_id''"
    and "has_text_column (prepare_box box) ''team''"
    and "has_text_column (prepare_box box) ''player''"
  shows "\<exists>out. build_features parse box (Some ls) ms = Inr out
     \<and> (map_of (columns (prepare_box box)) ''shots'' = None \<longrightarrow> (\<forall>r \<in> set out. shots r = 0))
     \<and> (map_of (columns (prepare_box box)) ''sog'' = None \<longrightarrow> (\<forall>r \<in> set out. sog r = 0))
     \<and> (map_of (columns (prepare_box box)) ''goals'' = None \<longrightarrow> (\<forall>r \<in> set out. goals r = 0))
     \<and> (map_of (columns (prepare_box box)) ''assists'' = None \<longrightarrow>
          (\<forall>r \<in> set out. assists r = 0))"
proof -
  let ?f = "prepare_box box"
  from text_column_ok [OF assms(1)] obtain ms' where m: "text_column ?f ''match_id'' = Inr ms'" ..
  from text_column_ok [OF assms(2)] obtain ts where t: "text_column ?f ''team'' = Inr ts" ..
  from text_column_ok [OF assms(3)] obtain ps where p: "text_column ?f ''player'' = Inr ps" ..
  from m t p obtain rows where rows: "box_rows parse ?f = Inr rows"
    by (simp add: box_rows_def)
  then have out: "build_features parse box (Some ls) ms = Inr (aggregate rows ls ms)"
    by (simp add: build_features_def)
  have sums: "\<And>r. r \<in> set (aggregate rows ls ms) \<Longrightarrow>
      \<exists>g. set g \<subseteq> set rows \<and> goals r = sum_list (map goals g)
            \<and> shots r = sum_list (map shots g) \<and> sog r = sum_list (map sog g)
            \<and> assists r = sum_list (map assists g)"
    using aggregate_row_sums by blast
  have a1: "map_of (columns ?f) ''shots'' = None \<longrightarrow>
      (\<forall>r \<in> set (aggregate rows ls ms). shots r = 0)"
    using sums absent_stat_zero(1) [OF rows] by metis
  have a2: "map_of (columns ?f) ''sog'' = None \<longrightarrow>
      (\<forall>r \<in> set (aggregate rows ls ms). sog r = 0)"
    using sums absent_stat_zero(2) [OF rows] by metis
  have a3: "map_of (columns ?f) ''goals'' = None \<longrightarrow>
      (\<forall>r \<in> set (aggregate rows ls ms). goals r = 0)"
    using sums absent_stat_zero(3) [OF rows] by metis
  have a4: "map_of (columns ?f) ''assists'' = None \<longrightarrow>
      (\<forall>r \<in> set (aggregate rows ls ms). assists r = 0)"
    using sums absent_stat_zero(4) [OF rows] by metis
  show ?thesis
    by (rule exI [of _ "aggregate rows ls ms"]) (intro conjI out a1 a2 a3 a4)
qed

theorem missing_stat_column_defaults_witness:
  "\<not> isl (build_features (\<lambda>s. None) example_box (Some example_lineups) example_matches)
   \<and> map shots (projr (build_features (\<lambda>s. None) example_box (Some example_lineups)
        example_matches)) = [0, 0]"
proof -
  let ?res = "build_features (\<lambda>s. None) example_box (Some example_lineups) example_matches"
  have k: "has_text_column (prepare_box example_box) ''match_id''"
    "has_text_column (prepare_box example_box) ''team''"
    "has_text_column (prepare_box example_box) ''player''"
    by code_simp+
  have a: "map_of (columns (prepare_box example_box)) ''shots'' = None"
    by code_simp
  from missing_stat_column_defaults [OF k, of "\<lambda>s. None" example_lineups example_matches] a
  obtain out where out: "?res = Inr out" "\<forall>r \<in> set out. shots r = 0"
    by blast
  have "length (projr ?res) = 2" by code_simp
  with out(1) obtain x y where "out = [x, y]"
    by (cases out; cases "tl out") auto
  with out show ?thesis by simp
qed

text \<open>
  The boxscore frame without a shots column does not abort the stage: the output table is
  produced, with 0 shots in both rows.
\<close>

theorem missing_stat_column_counterexample:
  "map_of (columns (prepare_box example_box)) ''shots'' = None
   \<and> \<not> isl (build_features (\<lambda>s. None) example_box (Some example_lineups) example_matches)
   \<and> map (\<lambda>r. (team r, goals r, shots r, sog r))
       (projr (build_features (\<lambda>s. None) example_box (Some example_lineups) example_matches)) =
     [(''ubc'', 1, 0, 2), (''calgary'', 0, 0, 1)]"
  by code_simp

end
